theory Spec2Isabelle
  imports Complex_Main "HOL-Library.Sublist"
begin

section \<open>Python values, exceptions and settings\<close>

text \<open>
  The task parameters and results of Tasker are JSON-like Python values. A Python \<open>str\<close> is
  modelled by \<open>string\<close>, one \<open>char\<close> per code point, so the model covers the strings whose
  code points are below 256. A Python \<open>int\<close> is an \<open>int\<close>, a \<open>bool\<close> is a separate
  constructor (it is a subclass of \<open>int\<close> in Python, which \<open>py_is_number\<close> and
  \<open>py_int_value\<close> write out). A \<open>float\<close> is the real number it denotes, or one of the three
  special values; comparisons of floats are exact on these, while rounding operations (float
  addition, \<open>repr\<close>) are not computed by the model and are taken from a record \<open>fpu\<close>.
  A \<open>dict\<close> with string keys is an association list read with \<open>map_of\<close>.
\<close>

datatype pyfloat = Finite real | PosInf | NegInf | NaN

datatype pyval =
    PNone
  | PBool bool
  | PInt int
  | PFloat pyfloat
  | PStr string
  | PList "pyval list"
  | PDict "(string \<times> pyval) list"

type_synonym pydict = "(string \<times> pyval) list"

record fpu =
  float_add :: "pyfloat \<Rightarrow> pyfloat \<Rightarrow> pyfloat"
  float_of_int :: "int \<Rightarrow> pyfloat option"
  float_repr :: "real \<Rightarrow> string"

datatype exc_class =
    ValueError | TypeError | OverflowError | RuntimeError | OpenAIError | RequestError
  | KeyError | RedisError | IntegrityError | ValidationError

datatype pyexc = PyExc exc_class string

fun exc_type :: "pyexc \<Rightarrow> exc_class" where
  "exc_type (PyExc c m) = c"

fun str_exc :: "pyexc \<Rightarrow> string" where
  "str_exc (PyExc c m) = m"

definition is_ValueError :: "pyexc \<Rightarrow> bool" where
  "is_ValueError e = (exc_type e = ValueError)"

text \<open>\<open>app/config.py\<close>: the settings the modelled code reads, with their defaults.\<close>

record settings =
  cache_ttl_seconds :: nat
  openai_api_key :: string
  max_prompt_length :: int
  max_city_length :: int
  max_number_value :: real

definition default_settings :: settings where
  "default_settings =
     \<lparr>cache_ttl_seconds = 3600, openai_api_key = '''', max_prompt_length = 10000,
      max_city_length = 100, max_number_value = 10 ^ 15\<rparr>"

subsection \<open>Built-ins of Python used by the code\<close>

fun py_is_number :: "pyval \<Rightarrow> bool" where
  "py_is_number (PBool b) = True"
| "py_is_number (PInt i) = True"
| "py_is_number (PFloat x) = True"
| "py_is_number v = False"

fun py_is_int :: "pyval \<Rightarrow> bool" where
  "py_is_int (PBool b) = True"
| "py_is_int (PInt i) = True"
| "py_is_int v = False"

fun py_is_str :: "pyval \<Rightarrow> bool" where
  "py_is_str (PStr s) = True"
| "py_is_str v = False"

fun py_int_value :: "pyval \<Rightarrow> int" where
  "py_int_value (PBool b) = (if b then 1 else 0)"
| "py_int_value (PInt i) = i"
| "py_int_value v = 0"

text \<open>Truth value of a Python object, as \<open>if x:\<close> and \<open>not x\<close> test it.\<close>

fun py_truthy :: "pyval \<Rightarrow> bool" where
  "py_truthy PNone = False"
| "py_truthy (PBool b) = b"
| "py_truthy (PInt i) = (i \<noteq> 0)"
| "py_truthy (PFloat (Finite r)) = (r \<noteq> 0)"
| "py_truthy (PFloat x) = True"
| "py_truthy (PStr s) = (s \<noteq> [])"
| "py_truthy (PList xs) = (xs \<noteq> [])"
| "py_truthy (PDict kvs) = (kvs \<noteq> [])"

text \<open>\<open>abs(x) > m\<close> for a number \<open>x\<close> and a finite float \<open>m\<close>: Python compares an int with a
  float by value, every comparison with NaN is false, and both infinities have absolute value
  \<open>inf\<close>.\<close>

fun abs_gt :: "pyval \<Rightarrow> real \<Rightarrow> bool" where
  "abs_gt (PBool b) m = ((if b then 1 else 0) > m)"
| "abs_gt (PInt i) m = (\<bar>real_of_int i\<bar> > m)"
| "abs_gt (PFloat (Finite r)) m = (\<bar>r\<bar> > m)"
| "abs_gt (PFloat PosInf) m = True"
| "abs_gt (PFloat NegInf) m = True"
| "abs_gt (PFloat NaN) m = False"
| "abs_gt v m = False"

text \<open>\<open>math.isnan(x) or math.isinf(x)\<close>.\<close>

fun isnan_or_isinf :: "pyval \<Rightarrow> bool" where
  "isnan_or_isinf (PFloat (Finite r)) = False"
| "isnan_or_isinf (PFloat x) = True"
| "isnan_or_isinf v = False"

text \<open>\<open>lo <= x <= hi\<close> for a number \<open>x\<close> and integer bounds.\<close>

fun between :: "int \<Rightarrow> pyval \<Rightarrow> int \<Rightarrow> bool" where
  "between lo (PBool b) hi = (lo \<le> (if b then 1 else 0) \<and> (if b then 1 else 0) \<le> hi)"
| "between lo (PInt i) hi = (lo \<le> i \<and> i \<le> hi)"
| "between lo (PFloat (Finite r)) hi = (real_of_int lo \<le> r \<and> r \<le> real_of_int hi)"
| "between lo v hi = False"

text \<open>\<open>str.isspace\<close> and \<open>str.isalnum\<close> on the code points below 256; \<open>str.strip()\<close>.\<close>

definition py_isspace :: "char \<Rightarrow> bool" where
  "py_isspace c =
     (let n = (of_char c :: nat)
      in (9 \<le> n \<and> n \<le> 13) \<or> (28 \<le> n \<and> n \<le> 32) \<or> n = 133 \<or> n = 160)"

definition py_isalnum :: "char \<Rightarrow> bool" where
  "py_isalnum c =
     (let n = (of_char c :: nat)
      in (48 \<le> n \<and> n \<le> 57) \<or> (65 \<le> n \<and> n \<le> 90) \<or> (97 \<le> n \<and> n \<le> 122)
         \<or> n = 170 \<or> n = 178 \<or> n = 179 \<or> n = 181 \<or> n = 185 \<or> n = 186
         \<or> (188 \<le> n \<and> n \<le> 190) \<or> (192 \<le> n \<and> n \<le> 214) \<or> (216 \<le> n \<and> n \<le> 246)
         \<or> 248 \<le> n)"

definition strip :: "string \<Rightarrow> string" where
  "strip s = rev (dropWhile py_isspace (rev (dropWhile py_isspace s)))"

text \<open>A text between single quotes, as \<open>repr\<close> of a short \<open>str\<close> and the messages of
  Python show it.\<close>

definition quoted :: "string \<Rightarrow> string" where
  "quoted s = [CHR 0x27] @ s @ [CHR 0x27]"

text \<open>\<open>str(n)\<close> of an int, as an f-string interpolates it.\<close>

fun str_nat :: "nat \<Rightarrow> string" where
  "str_nat n =
     (if n < 10 then [''0123456789'' ! n]
      else str_nat (n div 10) @ [''0123456789'' ! (n mod 10)])"

declare str_nat.simps [simp del]

definition str_int :: "int \<Rightarrow> string" where
  "str_int i = (if i < 0 then CHR ''-'' # str_nat (nat (- i)) else str_nat (nat i))"

section \<open>The validator: \<open>_validate_task_parameters\<close> of \<open>app/api/routes.py\<close>\<close>

datatype TaskName = TaskName_SUM | TaskName_CHATGPT | TaskName_WEATHER

fun task_name_value :: "TaskName \<Rightarrow> string" where
  "task_name_value TaskName_SUM = ''sum''"
| "task_name_value TaskName_CHATGPT = ''chatgpt''"
| "task_name_value TaskName_WEATHER = ''weather''"

text \<open>Each function returns \<open>Inl\<close> of the \<open>ValueError\<close> the source raises, or \<open>Inr ()\<close> when
  the source returns normally. The checks are in the order of the source.\<close>

definition validate_sum :: "fpu \<Rightarrow> settings \<Rightarrow> pydict \<Rightarrow> pyexc + unit" where
  "validate_sum fp st parameters =
     (case map_of parameters ''a'' of
        None \<Rightarrow> Inl (PyExc ValueError ''Parameter 'a' is required for sum task'')
      | Some a \<Rightarrow>
     (case map_of parameters ''b'' of
        None \<Rightarrow> Inl (PyExc ValueError ''Parameter 'b' is required for sum task'')
      | Some b \<Rightarrow>
        if \<not> py_is_number a then Inl (PyExc ValueError ''Parameter 'a' must be a number'')
        else if \<not> py_is_number b then Inl (PyExc ValueError ''Parameter 'b' must be a number'')
        else if abs_gt a (max_number_value st) then
          Inl (PyExc ValueError (''Parameter 'a' exceeds maximum allowed value of ''
                 @ float_repr fp (max_number_value st)))
        else if abs_gt b (max_number_value st) then
          Inl (PyExc ValueError (''Parameter 'b' exceeds maximum allowed value of ''
                 @ float_repr fp (max_number_value st)))
        else if isnan_or_isinf a then
          Inl (PyExc ValueError ''Parameter 'a' must be a finite number'')
        else if isnan_or_isinf b then
          Inl (PyExc ValueError ''Parameter 'b' must be a finite number'')
        else Inr ()))"

definition validate_max_tokens :: "pydict \<Rightarrow> pyexc + unit" where
  "validate_max_tokens parameters =
     (case map_of parameters ''max_tokens'' of
        None \<Rightarrow> Inr ()
      | Some v \<Rightarrow>
        if \<not> py_is_int v \<or> py_int_value v \<le> 0 then
          Inl (PyExc ValueError ''Parameter 'max_tokens' must be a positive integer'')
        else if py_int_value v > 4000 then
          Inl (PyExc ValueError ''Parameter 'max_tokens' cannot exceed 4000'')
        else Inr ())"

definition validate_temperature :: "pydict \<Rightarrow> pyexc + unit" where
  "validate_temperature parameters =
     (case map_of parameters ''temperature'' of
        None \<Rightarrow> Inr ()
      | Some v \<Rightarrow>
        if \<not> py_is_number v then
          Inl (PyExc ValueError ''Parameter 'temperature' must be a number'')
        else if \<not> between 0 v 2 then
          Inl (PyExc ValueError ''Parameter 'temperature' must be between 0 and 2'')
        else Inr ())"

definition validate_chatgpt :: "settings \<Rightarrow> pydict \<Rightarrow> pyexc + unit" where
  "validate_chatgpt st parameters =
     (case map_of parameters ''prompt'' of
        None \<Rightarrow> Inl (PyExc ValueError ''Parameter 'prompt' is required for chatgpt task'')
      | Some (PStr p) \<Rightarrow>
        if strip p = [] then
          Inl (PyExc ValueError ''Parameter 'prompt' must be a non-empty string'')
        else if int (length (strip p)) > max_prompt_length st then
          Inl (PyExc ValueError (''Parameter 'prompt' exceeds maximum length of ''
                 @ str_int (max_prompt_length st) @ '' characters''))
        else (case validate_max_tokens parameters of
                Inl e \<Rightarrow> Inl e
              | Inr u \<Rightarrow> validate_temperature parameters)
      | Some v \<Rightarrow> Inl (PyExc ValueError ''Parameter 'prompt' must be a string''))"

text \<open>The pattern \<open>^[\w\s\-\.,\']+$\<close> on a stripped, hence newline-free at its end, string:
  every character is a word character, white space or one of \<open>- . , '\<close>, and there is at
  least one.\<close>

definition city_char :: "char \<Rightarrow> bool" where
  "city_char c =
     (py_isalnum c \<or> c = CHR ''_'' \<or> py_isspace c \<or> c = CHR ''-'' \<or> c = CHR ''.''
      \<or> c = CHR '','' \<or> c = CHR 0x27)"

definition city_re_match :: "string \<Rightarrow> bool" where
  "city_re_match s = (s \<noteq> [] \<and> list_all city_char s)"

definition valid_units :: "pyval \<Rightarrow> bool" where
  "valid_units v = (v = PStr ''metric'' \<or> v = PStr ''imperial'' \<or> v = PStr ''kelvin'')"

definition validate_weather :: "settings \<Rightarrow> pydict \<Rightarrow> pyexc + unit" where
  "validate_weather st parameters =
     (case map_of parameters ''city'' of
        None \<Rightarrow> Inl (PyExc ValueError ''Parameter 'city' is required for weather task'')
      | Some (PStr c) \<Rightarrow>
        if strip c = [] then
          Inl (PyExc ValueError ''Parameter 'city' must be a non-empty string'')
        else if int (length (strip c)) > max_city_length st then
          Inl (PyExc ValueError (''Parameter 'city' exceeds maximum length of ''
                 @ str_int (max_city_length st) @ '' characters''))
        else if \<not> city_re_match (strip c) then
          Inl (PyExc ValueError ''Parameter 'city' contains invalid characters'')
        else (case map_of parameters ''units'' of
                None \<Rightarrow> Inr ()
              | Some u \<Rightarrow>
                if \<not> valid_units u then
                  Inl (PyExc ValueError
                         (''Parameter 'units' must be 'metric', 'imperial', or 'kelvin''
                          @ [CHR 0x27]))
                else Inr ())
      | Some v \<Rightarrow> Inl (PyExc ValueError ''Parameter 'city' must be a string''))"

fun validate_task_parameters :: "fpu \<Rightarrow> settings \<Rightarrow> TaskName \<Rightarrow> pydict \<Rightarrow> pyexc + unit" where
  "validate_task_parameters fp st TaskName_SUM parameters = validate_sum fp st parameters"
| "validate_task_parameters fp st TaskName_CHATGPT parameters = validate_chatgpt st parameters"
| "validate_task_parameters fp st TaskName_WEATHER parameters = validate_weather st parameters"

section \<open>The Task Store and the world the code acts on\<close>

text \<open>\<open>app/models/task.py\<close>. A UUID is identified with its canonical text, so \<open>str(task.id)\<close>
  and \<open>UUID(task_uuid)\<close> are the identity; a \<open>datetime\<close> is a number of microseconds.\<close>

datatype TaskStatus = PENDING | RUNNING | COMPLETED | FAILED

type_synonym uuid = string
type_synonym datetime = int

record task =
  task_id :: uuid
  task_name :: string
  task_parameters :: pydict
  status :: TaskStatus
  result :: "pydict option"
  error_message :: "string option"
  created_at :: datetime
  updated_at :: "datetime option"
  completed_at :: "datetime option"

text \<open>\<open>app/api/schemas.py\<close>: the view \<open>TaskOutputResponse\<close>.\<close>

record TaskOutputResponse =
  task_uuid :: uuid
  out_task_name :: string
  out_status :: TaskStatus
  task_output :: "pydict option"
  out_error_message :: "string option"
  out_created_at :: datetime
  out_completed_at :: "datetime option"

text \<open>
  What a Redis key holds is a text. The model keeps of it what \<open>get_task_output\<close> can tell
  apart after \<open>json.loads\<close>: the dump of a view (\<open>response.model_dump(mode="json")\<close>, which
  \<open>TaskOutputResponse(**cached_output)\<close> reads back), a value that is false in Python
  (\<open>null\<close>, \<open>{}\<close>, \<open>0\<close>, the empty text), or any other value, on which building the response
  raises. The Redis client either answers or raises on reads and on writes (\<open>get_error\<close>,
  \<open>setex_error\<close>: the message of the error the server gives, for instance when it is out of
  memory or read-only); \<open>redis w = None\<close> is \<open>CacheService._redis is None\<close>.
\<close>

datatype cached = CachedView TaskOutputResponse | CachedFalsy | CachedOther

record redis_client =
  entries :: "string \<rightharpoonup> (cached \<times> nat)"
  get_error :: "string option"
  setex_error :: "string option"

datatype work_item = WorkItem TaskName uuid pydict

datatype io =
    DbGet uuid
  | DbInsert uuid
  | DbCommit uuid TaskStatus
  | RedisGet string
  | RedisSetex string nat
  | Published TaskName uuid
  | RetryPublished uuid nat

record world =
  db :: "uuid \<rightharpoonup> task"
  redis :: "redis_client option"
  queue :: "work_item list"
  tasks_submitted_counter :: "string \<Rightarrow> nat"
  tasks_by_status :: "TaskStatus \<Rightarrow> int"
  task_execution_duration :: "(string \<times> real) list"
  cache_hits_counter :: nat
  cache_misses_counter :: nat
  trace :: "io list"

definition gauge_inc :: "(TaskStatus \<Rightarrow> int) \<Rightarrow> TaskStatus \<Rightarrow> (TaskStatus \<Rightarrow> int)" where
  "gauge_inc g s = g(s := g s + 1)"

definition gauge_dec :: "(TaskStatus \<Rightarrow> int) \<Rightarrow> TaskStatus \<Rightarrow> (TaskStatus \<Rightarrow> int)" where
  "gauge_dec g s = g(s := g s - 1)"

text \<open>A commit of a loaded row: SQLAlchemy issues an UPDATE, and with it the \<open>onupdate\<close> of
  \<open>updated_at\<close>, only when a column has changed.\<close>

definition commit_row :: "task \<Rightarrow> task \<Rightarrow> datetime \<Rightarrow> task" where
  "commit_row old new now = (if new = old then old else new\<lparr>updated_at := Some now\<rparr>)"

section \<open>The dispatcher: \<open>run_task\<close> of \<open>app/api/routes.py\<close>\<close>

datatype RunTaskRequest = RunTaskRequest TaskName pydict

datatype RunTaskResponse = RunTaskResponse uuid string

datatype http_error = HTTPException nat string | Unhandled pyexc

text \<open>
  \<open>celery_task.delay(str(task.id), **request.task_parameters)\<close> binds the parameters to
  the signature of the Celery function before it publishes anything: \<open>sum_numbers(self,
  task_uuid, a, b)\<close>, \<open>query_chatgpt(self, task_uuid, prompt, model, max_tokens,
  temperature)\<close> with defaults for the last three, \<open>fetch_weather(self, task_uuid, city,
  units)\<close> with a default for \<open>units\<close>. A key that is no parameter of the function (or is
  \<open>task_uuid\<close>, which is passed by position already), or a parameter without default that
  is absent, raises \<open>TypeError\<close>.
\<close>

fun celery_function :: "TaskName \<Rightarrow> string" where
  "celery_function TaskName_SUM = ''sum_numbers''"
| "celery_function TaskName_CHATGPT = ''query_chatgpt''"
| "celery_function TaskName_WEATHER = ''fetch_weather''"

fun required_args :: "TaskName \<Rightarrow> string list" where
  "required_args TaskName_SUM = [''a'', ''b'']"
| "required_args TaskName_CHATGPT = [''prompt'']"
| "required_args TaskName_WEATHER = [''city'']"

fun optional_args :: "TaskName \<Rightarrow> string list" where
  "optional_args TaskName_SUM = []"
| "optional_args TaskName_CHATGPT = [''model'', ''max_tokens'', ''temperature'']"
| "optional_args TaskName_WEATHER = [''units'']"

definition check_arguments :: "TaskName \<Rightarrow> pydict \<Rightarrow> pyexc + unit" where
  "check_arguments name kwargs =
     (case filter (\<lambda>k. k \<notin> set (required_args name @ optional_args name)) (map fst kwargs) of
        k # ks \<Rightarrow>
          Inl (PyExc TypeError
                 (celery_function name @ ''() got ''
                  @ (if k = ''task_uuid'' then ''multiple values for argument ''
                     else ''an unexpected keyword argument '')
                  @ quoted k))
      | [] \<Rightarrow>
          (case filter (\<lambda>k. map_of kwargs k = None) (required_args name) of
             [] \<Rightarrow> Inr ()
           | [k] \<Rightarrow>
               Inl (PyExc TypeError
                      (celery_function name @ ''() missing 1 required positional argument: ''
                       @ quoted k))
           | k # k2 # ks \<Rightarrow>
               Inl (PyExc TypeError
                      (celery_function name @ ''() missing 2 required positional arguments: ''
                       @ quoted k @ '' and '' @ quoted k2))))"

text \<open>
  \<open>new_id\<close> is the value \<open>uuid.uuid4\<close> gives the new row and \<open>now\<close> its \<open>created_at\<close>. The
  table \<open>task_map\<close> of \<open>get_celery_task\<close> has all three task names, so the branch
  \<open>if not celery_task\<close> is never taken and is left out. An insert under a primary key that
  exists is refused by the database. The record is committed and the two metrics are moved
  before \<open>delay\<close> is called: when \<open>delay\<close> raises, the error leaves the route unhandled, the
  pending record stays and nothing is queued. Logging is not modelled.
\<close>

definition run_task ::
  "fpu \<Rightarrow> settings \<Rightarrow> uuid \<Rightarrow> datetime \<Rightarrow> RunTaskRequest \<Rightarrow> world
     \<Rightarrow> (http_error + RunTaskResponse) \<times> world" where
  "run_task fp st new_id now request w =
     (case request of RunTaskRequest name parameters \<Rightarrow>
        (case validate_task_parameters fp st name parameters of
           Inl e \<Rightarrow> (Inl (HTTPException 400 (str_exc e)), w)
         | Inr u \<Rightarrow>
             if new_id \<in> dom (db w) then
               (Inl (Unhandled (PyExc IntegrityError ''duplicate key'')), w)
             else
               (let w1 =
                  w\<lparr>db := (db w)(new_id \<mapsto>
                         \<lparr>task_id = new_id, task_name = task_name_value name,
                          task_parameters = parameters, status = PENDING, result = None,
                          error_message = None, created_at = now, updated_at = None,
                          completed_at = None\<rparr>),
                    tasks_submitted_counter :=
                      (tasks_submitted_counter w)
                        (task_name_value name :=
                           tasks_submitted_counter w (task_name_value name) + 1),
                    tasks_by_status := gauge_inc (tasks_by_status w) PENDING,
                    trace := trace w @ [DbInsert new_id]\<rparr>
                in case check_arguments name parameters of
                     Inl e \<Rightarrow> (Inl (Unhandled e), w1)
                   | Inr ok \<Rightarrow>
                       (Inr (RunTaskResponse new_id ''Task submitted successfully''),
                        w1\<lparr>queue := queue w1 @ [WorkItem name new_id parameters],
                           trace := trace w1 @ [Published name new_id]\<rparr>))))"

section \<open>The worker execution engine: \<open>BaseTask.run\<close> of \<open>app/tasks/base.py\<close>\<close>

text \<open>The clock readings of one execution: \<open>time.time()\<close> at the start and at the end, and
  \<open>datetime.utcnow()\<close> at the two commits and at the assignment of \<open>completed_at\<close>.\<close>

record clock =
  start_time :: real
  running_commit_at :: datetime
  utcnow :: datetime
  final_commit_at :: datetime
  end_time :: real

definition mark_running :: "clock \<Rightarrow> uuid \<Rightarrow> world \<Rightarrow> world" where
  "mark_running c u w =
     (case db w u of
        None \<Rightarrow> w\<lparr>trace := trace w @ [DbGet u]\<rparr>
      | Some t \<Rightarrow>
          w\<lparr>db := (db w)(u \<mapsto> commit_row t (t\<lparr>status := RUNNING\<rparr>) (running_commit_at c)),
            tasks_by_status := gauge_inc (gauge_dec (tasks_by_status w) PENDING) RUNNING,
            trace := trace w @ [DbGet u, DbCommit u RUNNING]\<rparr>)"

definition mark_completed :: "clock \<Rightarrow> uuid \<Rightarrow> pydict \<Rightarrow> world \<Rightarrow> world" where
  "mark_completed c u r w =
     (case db w u of
        None \<Rightarrow> w\<lparr>trace := trace w @ [DbGet u]\<rparr>
      | Some t \<Rightarrow>
          w\<lparr>db := (db w)(u \<mapsto>
                 commit_row t
                   (t\<lparr>status := COMPLETED, result := Some r, completed_at := Some (utcnow c)\<rparr>)
                   (final_commit_at c)),
            tasks_by_status := gauge_inc (gauge_dec (tasks_by_status w) RUNNING) COMPLETED,
            trace := trace w @ [DbGet u, DbCommit u COMPLETED]\<rparr>)"

definition mark_failed :: "clock \<Rightarrow> uuid \<Rightarrow> pyexc \<Rightarrow> world \<Rightarrow> world" where
  "mark_failed c u e w =
     (case db w u of
        None \<Rightarrow> w\<lparr>trace := trace w @ [DbGet u]\<rparr>
      | Some t \<Rightarrow>
          w\<lparr>db := (db w)(u \<mapsto>
                 commit_row t
                   (t\<lparr>status := FAILED, error_message := Some (str_exc e),
                      completed_at := Some (utcnow c)\<rparr>)
                   (final_commit_at c)),
            tasks_by_status := gauge_inc (gauge_dec (tasks_by_status w) RUNNING) FAILED,
            trace := trace w @ [DbGet u, DbCommit u FAILED]\<rparr>)"

definition observe_duration :: "string \<Rightarrow> clock \<Rightarrow> world \<Rightarrow> world" where
  "observe_duration name c w =
     w\<lparr>task_execution_duration :=
         task_execution_duration w @ [(name, end_time c - start_time c)]\<rparr>"

text \<open>
  \<open>run\<close> takes the outcome of \<open>self.execute(**parameters)\<close> as \<open>body\<close>: \<open>Inr\<close> of the
  returned dictionary or \<open>Inl\<close> of the exception raised. The task bodies of this repository
  do not touch the Task Store, so their outcome is computed apart (see the task sections).
  The result is what \<open>run\<close> returns (\<open>Inr\<close>) or re-raises (\<open>Inl\<close>). The log messages
  and the counters of external API requests are not modelled.
\<close>

definition run ::
  "string \<Rightarrow> clock \<Rightarrow> uuid \<Rightarrow> pyexc + pydict \<Rightarrow> world \<Rightarrow> (pyexc + pydict) \<times> world" where
  "run name c u body w =
     (case body of
        Inr r \<Rightarrow> (Inr r, observe_duration name c (mark_completed c u r (mark_running c u w)))
      | Inl e \<Rightarrow> (Inl e, observe_duration name c (mark_failed c u e (mark_running c u w))))"

section \<open>The Celery tasks and their retries\<close>

text \<open>
  The three Celery tasks (\<open>sum_numbers\<close>, \<open>query_chatgpt\<close>, \<open>fetch_weather\<close>) wrap \<open>run\<close>
  in the same \<open>try\<close>/\<open>except\<close>: a \<open>ValueError\<close> is re-raised, any other exception goes to
  \<open>self.retry(exc=exc)\<close>. Celery's \<open>Task.retry\<close> re-raises \<open>exc\<close> when
  \<open>request.retries + 1 > max_retries\<close>, and otherwise publishes the task again, with
  \<open>retries\<close> one higher and the countdown \<open>default_retry_delay\<close>, and raises \<open>Retry\<close>.
\<close>

record celery_opts =
  max_retries :: nat
  default_retry_delay :: nat

datatype celery_result = Success pydict | Failure pyexc | Retry pyexc nat

definition celery_task ::
  "celery_opts \<Rightarrow> uuid \<Rightarrow> nat \<Rightarrow> (pyexc + pydict) \<times> world \<Rightarrow> celery_result \<times> world" where
  "celery_task opts u retries rw =
     (case rw of
        (Inr r, w) \<Rightarrow> (Success r, w)
      | (Inl e, w) \<Rightarrow>
          if is_ValueError e then (Failure e, w)
          else if retries + 1 > max_retries opts then (Failure e, w)
          else (Retry e (default_retry_delay opts),
                w\<lparr>trace := trace w @ [RetryPublished u (default_retry_delay opts)]\<rparr>))"

text \<open>One execution of a Celery task of this repository, with \<open>request.retries = retries\<close>:
  \<open>a\<close> is the clock of the execution and the outcome of the body.\<close>

definition attempt ::
  "string \<Rightarrow> celery_opts \<Rightarrow> uuid \<Rightarrow> nat \<Rightarrow> clock \<times> (pyexc + pydict) \<Rightarrow> world
     \<Rightarrow> celery_result \<times> world" where
  "attempt name opts u retries a w = celery_task opts u retries (run name (fst a) u (snd a) w)"

text \<open>
  The executions of one message: the first delivery and the retries Celery schedules. Each
  element of the list is what one execution meets (its clock and the outcome of the body).
  The result is \<open>Some (n, r)\<close> when the execution with \<open>request.retries = n\<close> ended the task
  with \<open>r\<close>, and \<open>None\<close> when the list ends while a retry is still waiting in the queue.
\<close>

fun redeliver ::
  "string \<Rightarrow> celery_opts \<Rightarrow> uuid \<Rightarrow> nat \<Rightarrow> (clock \<times> (pyexc + pydict)) list \<Rightarrow> world
     \<Rightarrow> (nat \<times> celery_result) option \<times> world" where
  "redeliver name opts u n [] w = (None, w)"
| "redeliver name opts u n (a # as) w =
     (case attempt name opts u n a w of
        (Retry e d, w') \<Rightarrow> redeliver name opts u (Suc n) as w'
      | (r, w') \<Rightarrow> (Some (n, r), w'))"

subsection \<open>\<open>app/tasks/sum_task.py\<close>\<close>

fun py_type_name :: "pyval \<Rightarrow> string" where
  "py_type_name PNone = ''NoneType''"
| "py_type_name (PBool b) = ''bool''"
| "py_type_name (PInt i) = ''int''"
| "py_type_name (PFloat x) = ''float''"
| "py_type_name (PStr s) = ''str''"
| "py_type_name (PList xs) = ''list''"
| "py_type_name (PDict kvs) = ''dict''"

fun py_is_float :: "pyval \<Rightarrow> bool" where
  "py_is_float (PFloat x) = True"
| "py_is_float v = False"

fun to_float :: "fpu \<Rightarrow> pyval \<Rightarrow> pyfloat option" where
  "to_float fp (PFloat x) = Some x"
| "to_float fp v = float_of_int fp (py_int_value v)"

text \<open>\<open>a + b\<close> on numbers: exact on ints and bools; as soon as one operand is a float the
  other is converted (an int too large for a float raises \<open>OverflowError\<close>) and the floats are
  added.\<close>

definition py_add :: "fpu \<Rightarrow> pyval \<Rightarrow> pyval \<Rightarrow> pyexc + pyval" where
  "py_add fp a b =
     (if py_is_float a \<or> py_is_float b then
        (case to_float fp a of
           None \<Rightarrow> Inl (PyExc OverflowError ''int too large to convert to float'')
         | Some x \<Rightarrow>
        (case to_float fp b of
           None \<Rightarrow> Inl (PyExc OverflowError ''int too large to convert to float'')
         | Some y \<Rightarrow> Inr (PFloat (float_add fp x y))))
      else Inr (PInt (py_int_value a + py_int_value b)))"

definition SumTask_execute :: "fpu \<Rightarrow> pyval \<Rightarrow> pyval \<Rightarrow> pyexc + pydict" where
  "SumTask_execute fp a b =
     (if \<not> py_is_number a then
        Inl (PyExc ValueError (''Parameter 'a' must be numeric, got '' @ py_type_name a))
      else if \<not> py_is_number b then
        Inl (PyExc ValueError (''Parameter 'b' must be numeric, got '' @ py_type_name b))
      else (case py_add fp a b of
              Inl e \<Rightarrow> Inl e
            | Inr r \<Rightarrow>
                Inr [(''operation'', PStr ''sum''), (''a'', a), (''b'', b), (''result'', r)]))"

definition sum_opts :: celery_opts where
  "sum_opts = \<lparr>max_retries = 3, default_retry_delay = 60\<rparr>"

definition sum_numbers ::
  "fpu \<Rightarrow> nat \<Rightarrow> clock \<Rightarrow> uuid \<Rightarrow> pyval \<Rightarrow> pyval \<Rightarrow> world \<Rightarrow> celery_result \<times> world" where
  "sum_numbers fp retries c u a b w =
     attempt ''sum'' sum_opts u retries (c, SumTask_execute fp a b) w"

subsection \<open>\<open>app/tasks/chatgpt_task.py\<close>\<close>

text \<open>The answer of the OpenAI API to one request: an \<open>OpenAIError\<close>, or a completion with
  its message content and, when present, its usage counts (prompt, completion, total).\<close>

datatype openai_reply = ApiError string | Completion pyval "(int \<times> int \<times> int) option"

fun str_of :: "pyval \<Rightarrow> string" where
  "str_of (PStr s) = s"
| "str_of v = []"

definition usage_dict :: "(int \<times> int \<times> int) option \<Rightarrow> pydict" where
  "usage_dict usage =
     (case usage of
        None \<Rightarrow>
          [(''prompt_tokens'', PInt 0), (''completion_tokens'', PInt 0), (''total_tokens'', PInt 0)]
      | Some (p, c, t) \<Rightarrow>
          [(''prompt_tokens'', PInt p), (''completion_tokens'', PInt c), (''total_tokens'', PInt t)])"

definition ChatGPTTask_execute ::
  "settings \<Rightarrow> openai_reply \<Rightarrow> pyval \<Rightarrow> pyval \<Rightarrow> pyval \<Rightarrow> pyval \<Rightarrow> pyexc + pydict" where
  "ChatGPTTask_execute st api prompt model max_tokens temperature =
     (if \<not> py_truthy prompt \<or> \<not> py_is_str prompt then
        Inl (PyExc ValueError ''Parameter 'prompt' must be a non-empty string'')
      else if int (length (str_of prompt)) > max_prompt_length st then
        Inl (PyExc ValueError (''Prompt exceeds maximum length of ''
               @ str_int (max_prompt_length st) @ '' characters''))
      else if openai_api_key st = [] then
        Inl (PyExc ValueError ''OpenAI API key is not configured'')
      else (case api of
              ApiError m \<Rightarrow> Inl (PyExc OpenAIError m)
            | Completion content usage \<Rightarrow>
                Inr [(''prompt'', prompt), (''response'', content), (''model'', model),
                     (''usage'', PDict (usage_dict usage))]))"

definition chatgpt_opts :: celery_opts where
  "chatgpt_opts = \<lparr>max_retries = 3, default_retry_delay = 30\<rparr>"

definition query_chatgpt ::
  "settings \<Rightarrow> nat \<Rightarrow> clock \<times> openai_reply \<Rightarrow> uuid \<Rightarrow> pyval \<Rightarrow> pyval \<Rightarrow> pyval \<Rightarrow> pyval
     \<Rightarrow> world \<Rightarrow> celery_result \<times> world" where
  "query_chatgpt st retries env u prompt model max_tokens temperature w =
     attempt ''chatgpt'' chatgpt_opts u retries
       (fst env, ChatGPTTask_execute st (snd env) prompt model max_tokens temperature) w"

subsection \<open>\<open>app/tasks/weather_task.py\<close>\<close>

text \<open>
  An HTTP request of the body times out, fails in transport, or is answered with a status
  code and a payload. The payload of the geocoding answer is its \<open>results\<close> list; the payload
  of the forecast answer stands for the dictionary \<open>weather_info\<close> that the body builds from
  it.
\<close>

datatype 'a http_reply = TimedOut | RequestFailed string | Response nat 'a

definition WeatherTask_execute ::
  "pydict list http_reply \<Rightarrow> pydict http_reply \<Rightarrow> pyval \<Rightarrow> pyval \<Rightarrow> pyexc + pydict" where
  "WeatherTask_execute geo forecast city units =
     (if \<not> py_truthy city \<or> \<not> py_is_str city then
        Inl (PyExc ValueError ''Parameter 'city' must be a non-empty string'')
      else if \<not> valid_units units then
        Inl (PyExc ValueError
               (''Parameter 'units' must be 'metric', 'imperial', or 'kelvin'' @ [CHR 0x27]))
      else (case geo of
              TimedOut \<Rightarrow> Inl (PyExc RuntimeError ''Open-Meteo API request timed out'')
            | RequestFailed m \<Rightarrow> Inl (PyExc RequestError m)
            | Response code results \<Rightarrow>
                if code \<noteq> 200 then
                  Inl (PyExc RuntimeError (''Open-Meteo Geocoding API error: '' @ str_nat code))
                else (case results of
                        [] \<Rightarrow>
                          Inl (PyExc ValueError
                                 (''City '' @ quoted (str_of city) @ '' not found''))
                      | location # others \<Rightarrow>
                          if map_of location ''latitude'' = None then
                            Inl (PyExc KeyError (quoted ''latitude''))
                          else if map_of location ''longitude'' = None then
                            Inl (PyExc KeyError (quoted ''longitude''))
                          else (case forecast of
                                  TimedOut \<Rightarrow>
                                    Inl (PyExc RuntimeError ''Open-Meteo API request timed out'')
                                | RequestFailed m \<Rightarrow> Inl (PyExc RequestError m)
                                | Response code' weather_info \<Rightarrow>
                                    if code' \<noteq> 200 then
                                      Inl (PyExc RuntimeError
                                             (''Open-Meteo Weather API error: '' @ str_nat code'))
                                    else Inr weather_info))))"

definition weather_opts :: celery_opts where
  "weather_opts = \<lparr>max_retries = 3, default_retry_delay = 30\<rparr>"

definition fetch_weather ::
  "nat \<Rightarrow> clock \<times> pydict list http_reply \<times> pydict http_reply \<Rightarrow> uuid \<Rightarrow> pyval \<Rightarrow> pyval
     \<Rightarrow> world \<Rightarrow> celery_result \<times> world" where
  "fetch_weather retries env u city units w =
     attempt ''weather'' weather_opts u retries
       (fst env, WeatherTask_execute (fst (snd env)) (snd (snd env)) city units) w"

section \<open>The output cache and the output reader\<close>

subsection \<open>\<open>CacheService\<close> of \<open>app/core/cache.py\<close>\<close>

definition make_key :: "string \<Rightarrow> string" where
  "make_key key = ''tasker:'' @ key"

definition cache_get :: "string \<Rightarrow> world \<Rightarrow> (pyexc + cached option) \<times> world" where
  "cache_get key w =
     (case redis w of
        None \<Rightarrow> (Inr None, w)
      | Some r \<Rightarrow>
          (case get_error r of
             Some m \<Rightarrow> (Inl (PyExc RedisError m), w\<lparr>trace := trace w @ [RedisGet (make_key key)]\<rparr>)
           | None \<Rightarrow>
               (case entries r (make_key key) of
                  Some (v, ttl) \<Rightarrow>
                    (Inr (Some v),
                     w\<lparr>cache_hits_counter := cache_hits_counter w + 1,
                       trace := trace w @ [RedisGet (make_key key)]\<rparr>)
                | None \<Rightarrow>
                    (Inr None,
                     w\<lparr>cache_misses_counter := cache_misses_counter w + 1,
                       trace := trace w @ [RedisGet (make_key key)]\<rparr>))))"

text \<open>\<open>set\<close> on a dictionary value, as \<open>set_task_output\<close> calls it. \<open>ttl or
  settings.cache_ttl_seconds\<close> takes the setting for \<open>None\<close> and for \<open>0\<close>; Redis refuses
  \<open>SETEX\<close> with an expiry of zero.\<close>

definition cache_set ::
  "settings \<Rightarrow> string \<Rightarrow> TaskOutputResponse \<Rightarrow> nat option \<Rightarrow> world \<Rightarrow> (pyexc + bool) \<times> world" where
  "cache_set st key v ttl w =
     (case redis w of
        None \<Rightarrow> (Inr False, w)
      | Some r \<Rightarrow>
          (let ttl' = (case ttl of None \<Rightarrow> cache_ttl_seconds st
                       | Some t \<Rightarrow> if t = 0 then cache_ttl_seconds st else t);
               w' = w\<lparr>trace := trace w @ [RedisSetex (make_key key) ttl']\<rparr>
           in case setex_error r of
                Some m \<Rightarrow> (Inl (PyExc RedisError m), w')
              | None \<Rightarrow>
                  if ttl' = 0 then
                    (Inl (PyExc RedisError ''invalid expire time in 'setex' command''), w')
                  else
                    (Inr True,
                     w'\<lparr>redis := Some (r\<lparr>entries := (entries r)(make_key key \<mapsto> (CachedView v, ttl'))\<rparr>)\<rparr>)))"

definition cache_get_task_output :: "uuid \<Rightarrow> world \<Rightarrow> (pyexc + cached option) \<times> world" where
  "cache_get_task_output u w = cache_get (''task_output:'' @ u) w"

definition cache_set_task_output ::
  "settings \<Rightarrow> uuid \<Rightarrow> TaskOutputResponse \<Rightarrow> world \<Rightarrow> (pyexc + bool) \<times> world" where
  "cache_set_task_output st u output w = cache_set st (''task_output:'' @ u) output None w"

subsection \<open>\<open>get_task_output\<close> of \<open>app/api/routes.py\<close>\<close>

definition response_of_task :: "task \<Rightarrow> TaskOutputResponse" where
  "response_of_task t =
     \<lparr>task_uuid = task_id t, out_task_name = task_name t, out_status = status t,
      task_output = result t, out_error_message = error_message t,
      out_created_at = created_at t, out_completed_at = completed_at t\<rparr>"

text \<open>\<open>read_store\<close> is the part of \<open>get_task_output\<close> after the look-up in the cache: the
  query of the database, the 404, and the caching of a terminal view.\<close>

definition read_store ::
  "settings \<Rightarrow> uuid \<Rightarrow> world \<Rightarrow> (http_error + TaskOutputResponse) \<times> world" where
  "read_store st u w =
     (let w1 = w\<lparr>trace := trace w @ [DbGet u]\<rparr>
      in case db w u of
           None \<Rightarrow> (Inl (HTTPException 404 (''Task with UUID '' @ u @ '' not found'')), w1)
         | Some t \<Rightarrow>
             if status t = COMPLETED \<or> status t = FAILED then
               (case cache_set_task_output st u (response_of_task t) w1 of
                  (Inl e, w2) \<Rightarrow> (Inl (Unhandled e), w2)
                | (Inr ok, w2) \<Rightarrow> (Inr (response_of_task t), w2))
             else (Inr (response_of_task t), w1))"

text \<open>An exception that leaves the route unhandled is answered by the handler of
  \<open>app/main.py\<close> with status 500: \<open>Unhandled\<close>.\<close>

definition get_task_output ::
  "settings \<Rightarrow> uuid \<Rightarrow> world \<Rightarrow> (http_error + TaskOutputResponse) \<times> world" where
  "get_task_output st u w =
     (case cache_get_task_output u w of
        (Inl e, w0) \<Rightarrow> (Inl (Unhandled e), w0)
      | (Inr (Some (CachedView v)), w0) \<Rightarrow> (Inr v, w0)
      | (Inr (Some CachedOther), w0) \<Rightarrow>
          (Inl (Unhandled (PyExc ValidationError ''TaskOutputResponse'')), w0)
      | (Inr (Some CachedFalsy), w0) \<Rightarrow> read_store st u w0
      | (Inr None, w0) \<Rightarrow> read_store st u w0)"

section \<open>Reading the trace, and the inputs of the examples\<close>

text \<open>The countdowns of the retries published, and the statuses committed for the record
  \<open>u\<close>, in the order of the trace.\<close>

fun retry_delays :: "io list \<Rightarrow> nat list" where
  "retry_delays [] = []"
| "retry_delays (RetryPublished u d # xs) = d # retry_delays xs"
| "retry_delays (x # xs) = retry_delays xs"

fun committed :: "uuid \<Rightarrow> io list \<Rightarrow> TaskStatus list" where
  "committed u [] = []"
| "committed u (DbCommit u' s # xs) = (if u' = u then s # committed u xs else committed u xs)"
| "committed u (x # xs) = committed u xs"

text \<open>An instance of \<open>fpu\<close> to run examples with: exact addition, and \<open>repr\<close> giving the text
  of the default ceiling \<open>1e15\<close>.\<close>

definition example_fpu :: fpu where
  "example_fpu =
     \<lparr>float_add =
        (\<lambda>x y. case x of Finite a \<Rightarrow> (case y of Finite b \<Rightarrow> Finite (a + b) | s \<Rightarrow> s) | s \<Rightarrow> s),
      float_of_int = (\<lambda>i. Some (Finite (real_of_int i))),
      float_repr = (\<lambda>r. ''1000000000000000.0'')\<rparr>"

definition empty_world :: world where
  "empty_world =
     \<lparr>db = Map.empty, redis = None, queue = [], tasks_submitted_counter = (\<lambda>n. 0),
      tasks_by_status = (\<lambda>s. 0), task_execution_duration = [], cache_hits_counter = 0,
      cache_misses_counter = 0, trace = []\<rparr>"

definition example_uuid :: uuid where
  "example_uuid = ''550e8400-e29b-41d4-a716-446655440000''"

definition example_clock :: clock where
  "example_clock =
     \<lparr>start_time = 0, running_commit_at = 1, utcnow = 2, final_commit_at = 3, end_time = 4\<rparr>"



definition extra_key_params :: pydict where
  "extra_key_params = [(''city'', PStr ''London''), (''lang'', PStr ''en'')]"

text \<open>The key under which the view of task \<open>u\<close> is cached: \<open>_make_key\<close> of
  \<open>task_output:<uuid>\<close>.\<close>

definition output_key :: "uuid \<Rightarrow> string" where
  "output_key u = make_key (''task_output:'' @ u)"


subsection \<open>A weather task whose first execution times out\<close>

text \<open>
  The submission \<open>{"city": "London"}\<close> of the weather task, the record \<open>run_task\<close> creates
  for it, and three bodies: the geocoding request times out (a \<open>RuntimeError\<close> after the
  \<open>except\<close> clause of the body), the two requests are answered, and the geocoding answer has
  no result. \<open>retried_delivery\<close> is the delivery whose first execution times out and whose
  retry is answered.
\<close>

definition london_params :: pydict where
  "london_params = [(''city'', PStr ''London'')]"

definition pending_task :: task where
  "pending_task =
     \<lparr>task_id = example_uuid, task_name = ''weather'', task_parameters = london_params,
      status = PENDING, result = None, error_message = None, created_at = 0,
      updated_at = None, completed_at = None\<rparr>"

definition pending_world :: world where
  "pending_world =
     snd (run_task example_fpu default_settings example_uuid 0
            (RunTaskRequest TaskName_WEATHER london_params) empty_world)"

definition london_info :: pydict where
  "london_info = [(''city'', PStr ''London''), (''country'', PStr ''GB'')]"

definition london_location :: pydict where
  "london_location = [(''latitude'', PFloat (Finite 51)), (''longitude'', PFloat (Finite 0)), (''name'', PStr ''London'')]"

definition timeout_exc :: pyexc where
  "timeout_exc = PyExc RuntimeError ''Open-Meteo API request timed out''"

definition timeout_body :: "pyexc + pydict" where
  "timeout_body = WeatherTask_execute TimedOut TimedOut (PStr ''London'') (PStr ''metric'')"

definition success_body :: "pyexc + pydict" where
  "success_body =
     WeatherTask_execute (Response 200 [london_location]) (Response 200 london_info)
       (PStr ''London'') (PStr ''metric'')"

definition not_found_body :: "pyexc + pydict" where
  "not_found_body =
     WeatherTask_execute (Response 200 []) TimedOut (PStr ''London'') (PStr ''metric'')"

definition retried_delivery :: "(nat \<times> celery_result) option \<times> world" where
  "retried_delivery =
     redeliver ''weather'' weather_opts example_uuid 0
       [(example_clock, timeout_body), (example_clock, success_body)] pending_world"

text \<open>The world between the two executions of \<open>retried_delivery\<close>, and the world in the
  middle of the second one, when \<open>run\<close> has committed \<open>running\<close> and the body has not yet
  returned.\<close>

definition after_first_execution :: world where
  "after_first_execution =
     snd (attempt ''weather'' weather_opts example_uuid 0 (example_clock, timeout_body)
            pending_world)"

definition during_retry :: world where
  "during_retry = mark_running example_clock example_uuid after_first_execution"

definition four_timeouts :: "(clock \<times> (pyexc + pydict)) list" where
  "four_timeouts = replicate 4 (example_clock, timeout_body)"


subsection \<open>A completed record and three caches\<close>

definition completed_task :: task where
  "completed_task = pending_task\<lparr>status := COMPLETED, result := Some london_info,
     updated_at := Some 3, completed_at := Some 2\<rparr>"

definition healthy_redis :: redis_client where
  "healthy_redis = \<lparr>entries = Map.empty, get_error = None, setex_error = None\<rparr>"

definition full_redis :: redis_client where
  "full_redis =
     \<lparr>entries = Map.empty, get_error = None,
      setex_error = Some ''OOM command not allowed when used memory > maxmemory''\<rparr>"

definition completed_world :: "redis_client option \<Rightarrow> world" where
  "completed_world r = empty_world\<lparr>db := [example_uuid \<mapsto> completed_task], redis := r\<rparr>"

definition cached_only_world :: world where
  "cached_only_world =
     empty_world\<lparr>redis := Some (healthy_redis\<lparr>entries :=
        [output_key example_uuid \<mapsto> (CachedView (response_of_task completed_task), 3600)]\<rparr>)\<rparr>"


subsection \<open>Boolean parameters and a padded prompt\<close>

definition bool_params :: pydict where
  "bool_params = [(''a'', PBool True), (''b'', PBool True)]"

definition bool_result :: pydict where
  "bool_result =
     [(''operation'', PStr ''sum''), (''a'', PBool True), (''b'', PBool True), (''result'', PInt 2)]"

definition long_prompt :: string where
  "long_prompt = replicate 10000 CHR ''x'' @ '' ''"

definition too_long :: pyexc where
  "too_long = PyExc ValueError ''Prompt exceeds maximum length of 10000 characters''"


section \<open>Properties of the validator and the dispatcher\<close>

text \<open>
  Claim C7. A submission whose parameters fail validation is answered at once with status
  400 and the reason of the validator, and nothing else happens: \<open>run_task\<close> returns the world
  it was given, so no Task record is stored, no work item is queued and no metric moves.
\<close>

theorem run_task_rejects_invalid:
  "validate_task_parameters fp st name parameters = Inl e \<Longrightarrow>
   run_task fp st new_id now (RunTaskRequest name parameters) w
     = (Inl (HTTPException 400 (str_exc e)), w)"
  by (simp add: run_task_def)

theorem run_task_rejects_invalid_witness:
  "validate_task_parameters example_fpu default_settings TaskName_SUM [(''b'', PInt 1)]
     = Inl (PyExc ValueError ''Parameter 'a' is required for sum task'')
   \<and> run_task example_fpu default_settings example_uuid 0
         (RunTaskRequest TaskName_SUM [(''b'', PInt 1)]) empty_world
       = (Inl (HTTPException 400 ''Parameter 'a' is required for sum task''), empty_world)"
proof -
  have h: "validate_task_parameters example_fpu default_settings TaskName_SUM [(''b'', PInt 1)]
     = Inl (PyExc ValueError ''Parameter 'a' is required for sum task'')"
    by (simp add: validate_sum_def)
  show ?thesis
    using h run_task_rejects_invalid [OF h, of example_uuid 0 empty_world] by simp
qed

text \<open>A submission that passes the validator and does not fit the signature of the Celery
  function: the pending record is stored, the error of \<open>delay\<close> leaves the route unhandled
  and nothing is queued.\<close>

lemma run_task_extra_key:
  "fst (run_task fp default_settings example_uuid 0
          (RunTaskRequest TaskName_WEATHER extra_key_params) empty_world)
     = Inl (Unhandled (PyExc TypeError
              (''fetch_weather() got an unexpected keyword argument '' @ quoted ''lang'')))"
  "map_option status
     (db (snd (run_task fp default_settings example_uuid 0
                 (RunTaskRequest TaskName_WEATHER extra_key_params) empty_world)) example_uuid)
     = Some PENDING"
  "queue (snd (run_task fp default_settings example_uuid 0
                 (RunTaskRequest TaskName_WEATHER extra_key_params) empty_world)) = []"
  by (simp_all add: run_task_def Let_def check_arguments_def extra_key_params_def
      validate_weather_def strip_def py_isspace_def city_re_match_def city_char_def
      py_isalnum_def default_settings_def empty_world_def)

subsection \<open>The sum task at its boundaries\<close>










section \<open>Properties of the worker execution engine\<close>

subsection \<open>What one execution does to the record, the trace and the metric\<close>

lemma retry_delays_append: "retry_delays (xs @ ys) = retry_delays xs @ retry_delays ys"
  by (induction xs rule: retry_delays.induct) simp_all

lemma committed_append: "committed u (xs @ ys) = committed u xs @ committed u ys"
  by (induction u xs rule: committed.induct) simp_all

lemma commit_row_fields [simp]:
  "status (commit_row old new now) = status new"
  "result (commit_row old new now) = result new"
  "error_message (commit_row old new now) = error_message new"
  by (auto simp: commit_row_def)

lemma run_success:
  assumes "db w u = Some t"
  shows "\<exists>w' t'. run name c u (Inr r) w = (Inr r, w') \<and> db w' u = Some t'
           \<and> status t' = COMPLETED \<and> result t' = Some r \<and> error_message t' = error_message t
           \<and> trace w' = trace w @ [DbGet u, DbCommit u RUNNING, DbGet u, DbCommit u COMPLETED]
           \<and> task_execution_duration w' =
               task_execution_duration w @ [(name, end_time c - start_time c)]"
  using assms
  by (simp add: run_def observe_duration_def mark_completed_def mark_running_def)

lemma run_failure:
  assumes "db w u = Some t"
  shows "\<exists>w' t'. run name c u (Inl e) w = (Inl e, w') \<and> db w' u = Some t'
           \<and> status t' = FAILED \<and> result t' = result t \<and> error_message t' = Some (str_exc e)
           \<and> trace w' = trace w @ [DbGet u, DbCommit u RUNNING, DbGet u, DbCommit u FAILED]
           \<and> task_execution_duration w' =
               task_execution_duration w @ [(name, end_time c - start_time c)]"
  using assms
  by (simp add: run_def observe_duration_def mark_failed_def mark_running_def)

lemma attempt_success:
  assumes "db w u = Some t"
  shows "\<exists>w' t'. attempt name opts u n (c, Inr r) w = (Success r, w') \<and> db w' u = Some t'
           \<and> status t' = COMPLETED \<and> result t' = Some r \<and> error_message t' = error_message t
           \<and> trace w' = trace w @ [DbGet u, DbCommit u RUNNING, DbGet u, DbCommit u COMPLETED]
           \<and> task_execution_duration w' =
               task_execution_duration w @ [(name, end_time c - start_time c)]"
proof -
  obtain w' t' where "run name c u (Inr r) w = (Inr r, w')" and rest: "db w' u = Some t'"
     "status t' = COMPLETED" "result t' = Some r" "error_message t' = error_message t"
     "trace w' = trace w @ [DbGet u, DbCommit u RUNNING, DbGet u, DbCommit u COMPLETED]"
     "task_execution_duration w' =
               task_execution_duration w @ [(name, end_time c - start_time c)]"
    using run_success [OF assms] by blast
  then have "attempt name opts u n (c, Inr r) w = (Success r, w')"
    by (simp add: attempt_def celery_task_def)
  with rest show ?thesis by blast
qed

lemma attempt_final_failure:
  assumes "db w u = Some t" "is_ValueError e \<or> max_retries opts \<le> n"
  shows "\<exists>w' t'. attempt name opts u n (c, Inl e) w = (Failure e, w') \<and> db w' u = Some t'
           \<and> status t' = FAILED \<and> result t' = result t \<and> error_message t' = Some (str_exc e)
           \<and> trace w' = trace w @ [DbGet u, DbCommit u RUNNING, DbGet u, DbCommit u FAILED]
           \<and> task_execution_duration w' =
               task_execution_duration w @ [(name, end_time c - start_time c)]"
proof -
  obtain w' t' where "run name c u (Inl e) w = (Inl e, w')" and rest: "db w' u = Some t'"
     "status t' = FAILED" "result t' = result t" "error_message t' = Some (str_exc e)"
     "trace w' = trace w @ [DbGet u, DbCommit u RUNNING, DbGet u, DbCommit u FAILED]"
     "task_execution_duration w' =
               task_execution_duration w @ [(name, end_time c - start_time c)]"
    using run_failure [OF assms(1)] by blast
  then have "attempt name opts u n (c, Inl e) w = (Failure e, w')"
    using assms(2) by (auto simp: attempt_def celery_task_def)
  with rest show ?thesis by blast
qed

lemma attempt_retry:
  assumes "db w u = Some t" "\<not> is_ValueError e" "n < max_retries opts"
  shows "\<exists>w' t'. attempt name opts u n (c, Inl e) w = (Retry e (default_retry_delay opts), w')
           \<and> db w' u = Some t'
           \<and> status t' = FAILED \<and> result t' = result t \<and> error_message t' = Some (str_exc e)
           \<and> trace w' = trace w @ [DbGet u, DbCommit u RUNNING, DbGet u, DbCommit u FAILED,
                                    RetryPublished u (default_retry_delay opts)]
           \<and> task_execution_duration w' =
               task_execution_duration w @ [(name, end_time c - start_time c)]"
proof -
  obtain w' t' where r: "run name c u (Inl e) w = (Inl e, w')" and rest: "db w' u = Some t'"
     "status t' = FAILED" "result t' = result t" "error_message t' = Some (str_exc e)"
     "trace w' = trace w @ [DbGet u, DbCommit u RUNNING, DbGet u, DbCommit u FAILED]"
     "task_execution_duration w' =
               task_execution_duration w @ [(name, end_time c - start_time c)]"
    using run_failure [OF assms(1)] by blast
  let ?w = "w'\<lparr>trace := trace w' @ [RetryPublished u (default_retry_delay opts)]\<rparr>"
  have "attempt name opts u n (c, Inl e) w = (Retry e (default_retry_delay opts), ?w)"
    using assms(2,3) r by (simp add: attempt_def celery_task_def)
  moreover have "db ?w u = Some t'" using rest by simp
  moreover have "trace ?w = trace w @ [DbGet u, DbCommit u RUNNING, DbGet u, DbCommit u FAILED,
                                    RetryPublished u (default_retry_delay opts)]"
    using rest by simp
  moreover have "task_execution_duration ?w =
               task_execution_duration w @ [(name, end_time c - start_time c)]"
    using rest by simp
  ultimately show ?thesis using rest(2,3,4) by blast
qed

lemma attempt_durations:
  "task_execution_duration (snd (attempt name opts u n a w))
     = task_execution_duration w @ [(name, end_time (fst a) - start_time (fst a))]"
  by (cases "snd a")
     (simp_all add: attempt_def run_def celery_task_def observe_duration_def mark_running_def
        mark_completed_def mark_failed_def split: option.splits)


subsection \<open>Deliveries\<close>

lemma redeliver_exhausts:
  assumes "\<forall>a\<in>set as. \<exists>e. snd a = Inl e \<and> \<not> is_ValueError e"
    "length as = Suc (max_retries opts) - n" "n \<le> max_retries opts" "db w u = Some t"
  shows "\<exists>w' t' e. redeliver name opts u n (as @ rest) w = (Some (max_retries opts, Failure e), w')
           \<and> snd (last as) = Inl e \<and> db w' u = Some t' \<and> status t' = FAILED
           \<and> error_message t' = Some (str_exc e)
           \<and> retry_delays (trace w') =
               retry_delays (trace w) @ replicate (max_retries opts - n) (default_retry_delay opts)
           \<and> length (task_execution_duration w') = length (task_execution_duration w) + length as"
  using assms
proof (induction as arbitrary: n w t)
  case Nil
  then show ?case by simp
next
  case (Cons a as)
  obtain c e where a: "a = (c, Inl e)" and tr: "\<not> is_ValueError e"
    using Cons.prems(1) by (cases a) auto
  show ?case
  proof (cases "n < max_retries opts")
    case True
    obtain w1 t1 where 1: "attempt name opts u n (c, Inl e) w = (Retry e (default_retry_delay opts), w1)"
       "db w1 u = Some t1" 
       "trace w1 = trace w @ [DbGet u, DbCommit u RUNNING, DbGet u, DbCommit u FAILED,
                                    RetryPublished u (default_retry_delay opts)]"
       "task_execution_duration w1 =
               task_execution_duration w @ [(name, end_time c - start_time c)]"
      using attempt_retry [OF Cons.prems(4) tr True] by blast
    have len: "length as = Suc (max_retries opts) - Suc n" using Cons.prems(2) by simp
    have all: "\<forall>a\<in>set as. \<exists>e. snd a = Inl e \<and> \<not> is_ValueError e" using Cons.prems(1) by simp
    have ne: "as \<noteq> []" using len True by auto
    obtain w' t' e' where 2: "redeliver name opts u (Suc n) (as @ rest) w1 = (Some (max_retries opts, Failure e'), w')"
           "snd (last as) = Inl e'" "db w' u = Some t'" "status t' = FAILED"
           "error_message t' = Some (str_exc e')"
           "retry_delays (trace w') =
               retry_delays (trace w1) @ replicate (max_retries opts - Suc n) (default_retry_delay opts)"
           "length (task_execution_duration w') = length (task_execution_duration w1) + length as"
      using Cons.IH [OF all len _ 1(2)] True by (metis Suc_leI)
    have "redeliver name opts u n ((a # as) @ rest) w = (Some (max_retries opts, Failure e'), w')"
      using a 1(1) 2(1) by simp
    moreover have "retry_delays (trace w') =
               retry_delays (trace w) @ replicate (max_retries opts - n) (default_retry_delay opts)"
      using 2(6) 1(3) True by (simp add: retry_delays_append replicate_append_same Suc_diff_Suc flip: replicate_Suc)
    moreover have "length (task_execution_duration w') = length (task_execution_duration w) + length (a # as)"
      using 2(7) 1(4) by simp
    moreover have "snd (last (a # as)) = Inl e'" using ne 2(2) by simp
    ultimately show ?thesis using 2(3,4,5) by blast
  next
    case False
    then have n: "n = max_retries opts" using Cons.prems(3) by simp
    then have as: "as = []" using Cons.prems(2) by simp
    obtain w' t' where 1: "attempt name opts u n (c, Inl e) w = (Failure e, w')" "db w' u = Some t'"
           "status t' = FAILED" "error_message t' = Some (str_exc e)"
           "trace w' = trace w @ [DbGet u, DbCommit u RUNNING, DbGet u, DbCommit u FAILED]"
           "task_execution_duration w' =
               task_execution_duration w @ [(name, end_time c - start_time c)]"
      using attempt_final_failure [OF Cons.prems(4), of e opts n name c] n by auto
    have "redeliver name opts u n ((a # as) @ rest) w = (Some (max_retries opts, Failure e), w')"
      using a 1(1) n by simp
    moreover have "retry_delays (trace w') =
               retry_delays (trace w) @ replicate (max_retries opts - n) (default_retry_delay opts)"
      using 1(5) n by (simp add: retry_delays_append)
    moreover have "length (task_execution_duration w') = length (task_execution_duration w) + length (a # as)"
      using 1(6) as by simp
    moreover have "snd (last (a # as)) = Inl e" using as a by simp
    ultimately show ?thesis using 1(2,3,4) by blast
  qed
qed

lemma redeliver_value_error:
  assumes "is_ValueError e" "db w u = Some t"
  shows "\<exists>w' t'. redeliver name opts u n ((c, Inl e) # rest) w = (Some (n, Failure e), w')
           \<and> db w' u = Some t' \<and> status t' = FAILED \<and> error_message t' = Some (str_exc e)
           \<and> retry_delays (trace w') = retry_delays (trace w)
           \<and> length (task_execution_duration w') = length (task_execution_duration w) + 1"
proof -
  obtain w' t' where 1: "attempt name opts u n (c, Inl e) w = (Failure e, w')" "db w' u = Some t'"
           "status t' = FAILED" "error_message t' = Some (str_exc e)"
           "trace w' = trace w @ [DbGet u, DbCommit u RUNNING, DbGet u, DbCommit u FAILED]"
           "task_execution_duration w' =
               task_execution_duration w @ [(name, end_time c - start_time c)]"
    using attempt_final_failure [OF assms(2), of e opts n name c] assms(1) by auto
  have "redeliver name opts u n ((c, Inl e) # rest) w = (Some (n, Failure e), w')"
    using 1(1) by simp
  moreover have "retry_delays (trace w') = retry_delays (trace w)"
    using 1(5) by (simp add: retry_delays_append)
  moreover have "length (task_execution_duration w') = length (task_execution_duration w) + 1"
    using 1(6) by simp
  ultimately show ?thesis using 1(2,3,4) by blast
qed

lemma redeliver_durations:
  "fst (redeliver name opts u n as w) = Some (k, r) \<Longrightarrow>
   n \<le> k \<and> length (task_execution_duration (snd (redeliver name opts u n as w)))
     = length (task_execution_duration w) + (k - n + 1)"
proof (induction as arbitrary: n w)
  case Nil
  then show ?case by simp
next
  case (Cons a as)
  obtain res w1 where a: "attempt name opts u n a w = (res, w1)" by (cases "attempt name opts u n a w")
  have d: "length (task_execution_duration w1) = length (task_execution_duration w) + 1"
    using attempt_durations [of name opts u n a w] a by simp
  show ?case
  proof (cases res)
    case (Retry e dl)
    then have eq: "redeliver name opts u n (a # as) w = redeliver name opts u (Suc n) as w1"
      using a by simp
    then have "fst (redeliver name opts u (Suc n) as w1) = Some (k, r)" using Cons.prems by simp
    from Cons.IH [OF this] show ?thesis using eq d by auto
  next
    case (Success x)
    then show ?thesis using a d Cons.prems by auto
  next
    case (Failure x)
    then show ?thesis using a d Cons.prems by auto
  qed
qed

lemma city_not_found:
  "city \<noteq> [] \<Longrightarrow> valid_units units \<Longrightarrow>
   WeatherTask_execute (Response 200 []) forecast (PStr city) units
     = Inl (PyExc ValueError (''City '' @ quoted city @ '' not found''))"
  by (simp add: WeatherTask_execute_def)


subsection \<open>The delivery that times out once\<close>

lemma validate_london:
  "validate_weather st london_params = Inr ()" if "max_city_length st \<ge> 6"
  using that
  by (simp add: validate_weather_def london_params_def strip_def py_isspace_def city_re_match_def
      city_char_def py_isalnum_def)

lemma check_arguments_london: "check_arguments TaskName_WEATHER london_params = Inr ()"
  by (simp add: check_arguments_def london_params_def)

lemma db_pending_world:
  "db pending_world example_uuid =
     Some \<lparr>task_id = example_uuid, task_name = ''weather'', task_parameters = london_params,
           status = PENDING, result = None, error_message = None, created_at = 0,
           updated_at = None, completed_at = None\<rparr>"
  "trace pending_world = [DbInsert example_uuid, Published TaskName_WEATHER example_uuid]"
  "task_execution_duration pending_world = []"
  by (simp_all add: pending_world_def run_task_def validate_london check_arguments_london
      default_settings_def empty_world_def Let_def)

lemma pending_world_eq:
  "pending_world =
     empty_world\<lparr>db := [example_uuid \<mapsto> pending_task],
       tasks_submitted_counter := (\<lambda>n. 0)(''weather'' := 1),
       tasks_by_status := gauge_inc (\<lambda>s. 0) PENDING,
       queue := [WorkItem TaskName_WEATHER example_uuid london_params],
       trace := [DbInsert example_uuid, Published TaskName_WEATHER example_uuid]\<rparr>"
  by (simp add: pending_world_def run_task_def validate_london check_arguments_london
      default_settings_def empty_world_def pending_task_def Let_def)

lemma timeout_body_eq: "timeout_body = Inl timeout_exc"
  by (simp add: timeout_body_def timeout_exc_def WeatherTask_execute_def valid_units_def)

lemma success_body_eq: "success_body = Inr london_info"
  by (simp add: success_body_def WeatherTask_execute_def valid_units_def london_location_def)

lemma not_ve: "\<not> is_ValueError timeout_exc"
  by (simp add: timeout_exc_def is_ValueError_def)

lemma retried_delivery_facts:
  "fst retried_delivery = Some (1, Success london_info)"
  "map_option status (db (snd retried_delivery) example_uuid) = Some COMPLETED"
  "map_option result (db (snd retried_delivery) example_uuid) = Some (Some london_info)"
  "map_option error_message (db (snd retried_delivery) example_uuid)
     = Some (Some ''Open-Meteo API request timed out'')"
  "trace (snd retried_delivery) = trace pending_world
          @ [DbGet example_uuid, DbCommit example_uuid RUNNING,
             DbGet example_uuid, DbCommit example_uuid FAILED, RetryPublished example_uuid 30,
             DbGet example_uuid, DbCommit example_uuid RUNNING,
             DbGet example_uuid, DbCommit example_uuid COMPLETED]"
  "task_execution_duration (snd retried_delivery) = [(''weather'', 4), (''weather'', 4)]"
proof -
  have d: "default_retry_delay weather_opts = 30" "0 < max_retries weather_opts"
    by (simp_all add: weather_opts_def)
  obtain w1 t1 where 1:
    "attempt ''weather'' weather_opts example_uuid 0 (example_clock, Inl timeout_exc) pending_world
       = (Retry timeout_exc 30, w1)"
    "db w1 example_uuid = Some t1" "status t1 = FAILED"
    "error_message t1 = Some (str_exc timeout_exc)"
    "trace w1 = trace pending_world
          @ [DbGet example_uuid, DbCommit example_uuid RUNNING,
             DbGet example_uuid, DbCommit example_uuid FAILED, RetryPublished example_uuid 30]"
    "task_execution_duration w1 =
       task_execution_duration pending_world
         @ [(''weather'', end_time example_clock - start_time example_clock)]"
    using attempt_retry [OF db_pending_world(1) not_ve d(2), of "''weather''" example_clock]
    by (auto simp: d)
  obtain w2 t2 where 2:
    "attempt ''weather'' weather_opts example_uuid 1 (example_clock, Inr london_info) w1
       = (Success london_info, w2)"
    "db w2 example_uuid = Some t2" "status t2 = COMPLETED" "result t2 = Some london_info"
    "error_message t2 = error_message t1"
    "trace w2 = trace w1 @ [DbGet example_uuid, DbCommit example_uuid RUNNING,
             DbGet example_uuid, DbCommit example_uuid COMPLETED]"
    "task_execution_duration w2 =
       task_execution_duration w1 @ [(''weather'', end_time example_clock - start_time example_clock)]"
    using attempt_success [OF 1(2), of "''weather''" weather_opts 1 example_clock london_info]
    by auto
  have r: "retried_delivery = (Some (1, Success london_info), w2)"
    using 1(1) 2(1) by (simp add: retried_delivery_def timeout_body_eq success_body_eq)
  have m: "str_exc timeout_exc = ''Open-Meteo API request timed out''"
    by (simp add: timeout_exc_def)
  have c: "end_time example_clock - start_time example_clock = 4"
    by (simp add: example_clock_def)
  show "fst retried_delivery = Some (1, Success london_info)" by (simp add: r)
  show "map_option status (db (snd retried_delivery) example_uuid) = Some COMPLETED"
    using 2 by (simp add: r)
  show "map_option result (db (snd retried_delivery) example_uuid) = Some (Some london_info)"
    using 2 by (simp add: r)
  show "map_option error_message (db (snd retried_delivery) example_uuid)
     = Some (Some ''Open-Meteo API request timed out'')"
    using 2 1 m by (simp add: r)
  show "trace (snd retried_delivery) = trace pending_world
          @ [DbGet example_uuid, DbCommit example_uuid RUNNING,
             DbGet example_uuid, DbCommit example_uuid FAILED, RetryPublished example_uuid 30,
             DbGet example_uuid, DbCommit example_uuid RUNNING,
             DbGet example_uuid, DbCommit example_uuid COMPLETED]"
    using 2 1 by (simp add: r)
  show "task_execution_duration (snd retried_delivery) = [(''weather'', 4), (''weather'', 4)]"
    using 2 1 c by (simp add: r db_pending_world)
qed


lemma gauges_retried_delivery:
  "tasks_by_status pending_world PENDING = 1"
  "tasks_by_status (snd retried_delivery) PENDING = - 1"
  "tasks_by_status (snd retried_delivery) RUNNING = 0"
  "tasks_by_status (snd retried_delivery) FAILED = 1"
  "tasks_by_status (snd retried_delivery) COMPLETED = 1"
  by (simp_all add: retried_delivery_def timeout_body_eq success_body_eq timeout_exc_def
      attempt_def run_def celery_task_def is_ValueError_def weather_opts_def
      mark_running_def mark_failed_def mark_completed_def observe_duration_def
      gauge_inc_def gauge_dec_def pending_world_eq empty_world_def)

text \<open>
  Claim C1. The claim says that no retry moves a record from \<open>failed\<close> back to \<open>running\<close>.
  \<open>BaseTask.run\<close> writes \<open>running\<close> whatever the status of the record is, and it has
  written \<open>failed\<close> before the Celery task decides to retry. In the delivery whose first
  execution times out and whose retry succeeds, the statuses committed for the record are
  \<open>running\<close>, \<open>failed\<close>, \<open>running\<close>, \<open>completed\<close>: the record leaves the terminal status
  \<open>failed\<close>. The status gauges, which the code moves "pending to running" at every
  execution, end with \<open>-1\<close> pending and one failed task although the only task is completed.
\<close>

theorem retry_reenters_running:
  "fst retried_delivery = Some (1, Success london_info)
   \<and> committed example_uuid (trace (snd retried_delivery))
       = [RUNNING, FAILED, RUNNING, COMPLETED]
   \<and> tasks_by_status pending_world PENDING = 1
   \<and> tasks_by_status (snd retried_delivery) PENDING = - 1
   \<and> tasks_by_status (snd retried_delivery) FAILED = 1
   \<and> tasks_by_status (snd retried_delivery) COMPLETED = 1"
  using retried_delivery_facts(1,5) gauges_retried_delivery
  by (simp add: committed_append db_pending_world)


lemma during_retry_facts:
  "map_option status (db after_first_execution example_uuid) = Some FAILED"
  "map_option status (db during_retry example_uuid) = Some RUNNING"
  "map_option error_message (db during_retry example_uuid)
     = Some (Some ''Open-Meteo API request timed out'')"
  by (simp_all add: during_retry_def after_first_execution_def timeout_body_eq timeout_exc_def
      attempt_def run_def celery_task_def is_ValueError_def weather_opts_def
      mark_running_def mark_failed_def observe_duration_def pending_world_eq empty_world_def)

text \<open>
  Claim C2. The claim says that a terminal record has exactly one of \<open>result\<close> and
  \<open>error_message\<close>, also after a transient failure followed by a successful retry.
  \<open>BaseTask.run\<close> never resets \<open>error_message\<close>: while the retry runs the record is
  \<open>running\<close> with the message of the first failure, and after the delivery it is
  \<open>completed\<close> and has both its result and that message.
\<close>

theorem retry_keeps_error_message:
  "map_option status (db during_retry example_uuid) = Some RUNNING
   \<and> map_option error_message (db during_retry example_uuid)
       = Some (Some ''Open-Meteo API request timed out'')
   \<and> map_option status (db (snd retried_delivery) example_uuid) = Some COMPLETED
   \<and> map_option result (db (snd retried_delivery) example_uuid) = Some (Some london_info)
   \<and> map_option error_message (db (snd retried_delivery) example_uuid)
       = Some (Some ''Open-Meteo API request timed out'')"
  using retried_delivery_facts(2,3,4) during_retry_facts(2,3) by simp


text \<open>Against claim C4 as stated: the delivery that fails once and then completes has two
  duration observations, not one.\<close>

theorem duration_twice_counterexample:
  "fst retried_delivery = Some (1, Success london_info)
   \<and> task_execution_duration (snd retried_delivery) = [(''weather'', 4), (''weather'', 4)]"
  using retried_delivery_facts(1,6) by simp


text \<open>
  Claim C4, amended. The duration metric is observed exactly once per execution, that is
  once per call of \<open>BaseTask.run\<close>, whether the execution completes or fails and whether or
  not the record exists. A delivery that ends at the execution with \<open>request.retries = k\<close>,
  having started at \<open>n\<close>, has made \<open>k - n + 1\<close> observations.
\<close>

theorem duration_per_execution:
  "task_execution_duration (snd (attempt name opts u n a w))
     = task_execution_duration w @ [(name, end_time (fst a) - start_time (fst a))]
   \<and> (\<forall>k r. fst (redeliver name opts u n as w) = Some (k, r) \<longrightarrow>
         n \<le> k \<and> length (task_execution_duration (snd (redeliver name opts u n as w)))
           = length (task_execution_duration w) + (k - n + 1))"
  using attempt_durations redeliver_durations by blast

theorem duration_per_execution_witness:
  "fst retried_delivery = Some (1, Success london_info)
   \<and> length (task_execution_duration (snd retried_delivery)) = 2"
proof -
  have f: "fst (redeliver ''weather'' weather_opts example_uuid 0
       [(example_clock, timeout_body), (example_clock, success_body)] pending_world) = Some (1, Success london_info)"
    using retried_delivery_facts(1) by (simp add: retried_delivery_def)
  show ?thesis
    using f duration_per_execution [of "''weather''" weather_opts example_uuid 0 _ pending_world
        "[(example_clock, timeout_body), (example_clock, success_body)]", THEN conjunct2, rule_format, OF f]
    by (simp add: retried_delivery_def db_pending_world)
qed


text \<open>
  Claim C3. A \<open>ValueError\<close> of the body ends the delivery at once: the record is \<open>failed\<close>
  with the message of the error, no retry is published, and the executions that would
  follow are never made. Any other exception is retried: when all \<open>max_retries + 1\<close>
  executions fail in this way, the delivery ends at \<open>request.retries = max_retries\<close> with the
  record \<open>failed\<close> and the message of the last error, after \<open>max_retries\<close> retries each
  published with the countdown \<open>default_retry_delay\<close>. The weather body raises a
  \<open>ValueError\<close> when the geocoding answer has no result, and the three Celery tasks have
  \<open>max_retries = 3\<close> and a positive delay.
\<close>

theorem failure_classification:
  "(\<forall>e c rest n. is_ValueError e \<and> db w u = Some t \<longrightarrow>
      (\<exists>w' t'. redeliver name opts u n ((c, Inl e) # rest) w = (Some (n, Failure e), w')
         \<and> db w' u = Some t' \<and> status t' = FAILED \<and> error_message t' = Some (str_exc e)
         \<and> retry_delays (trace w') = retry_delays (trace w)
         \<and> length (task_execution_duration w') = length (task_execution_duration w) + 1))
   \<and> (\<forall>as rest. (\<forall>a\<in>set as. \<exists>e. snd a = Inl e \<and> \<not> is_ValueError e)
          \<and> length as = Suc (max_retries opts) \<and> db w u = Some t \<longrightarrow>
      (\<exists>w' t' e. redeliver name opts u 0 (as @ rest) w = (Some (max_retries opts, Failure e), w')
         \<and> snd (last as) = Inl e \<and> db w' u = Some t' \<and> status t' = FAILED
         \<and> error_message t' = Some (str_exc e)
         \<and> retry_delays (trace w') =
             retry_delays (trace w) @ replicate (max_retries opts) (default_retry_delay opts)
         \<and> length (task_execution_duration w') =
             length (task_execution_duration w) + Suc (max_retries opts)))
   \<and> (\<forall>city units forecast. city \<noteq> [] \<and> valid_units units \<longrightarrow>
        WeatherTask_execute (Response 200 []) forecast (PStr city) units
          = Inl (PyExc ValueError (''City '' @ quoted city @ '' not found'')))
   \<and> max_retries sum_opts = 3 \<and> max_retries chatgpt_opts = 3 \<and> max_retries weather_opts = 3
   \<and> default_retry_delay sum_opts = 60 \<and> default_retry_delay chatgpt_opts = 30
   \<and> default_retry_delay weather_opts = 30"
proof (intro conjI allI impI)
  fix e c rest n
  assume "is_ValueError e \<and> db w u = Some t"
  then show "\<exists>w' t'. redeliver name opts u n ((c, Inl e) # rest) w = (Some (n, Failure e), w')
         \<and> db w' u = Some t' \<and> status t' = FAILED \<and> error_message t' = Some (str_exc e)
         \<and> retry_delays (trace w') = retry_delays (trace w)
         \<and> length (task_execution_duration w') = length (task_execution_duration w) + 1"
    using redeliver_value_error by blast
next
  fix as :: "(clock \<times> (pyexc + pydict)) list" and rest :: "(clock \<times> (pyexc + pydict)) list"
  assume h: "(\<forall>a\<in>set as. \<exists>e. snd a = Inl e \<and> \<not> is_ValueError e)
          \<and> length as = Suc (max_retries opts) \<and> db w u = Some t"
  then have "\<forall>a\<in>set as. \<exists>e. snd a = Inl e \<and> \<not> is_ValueError e"
    "length as = Suc (max_retries opts) - 0" "0 \<le> max_retries opts" "db w u = Some t"
    by simp_all
  from redeliver_exhausts [OF this, of name rest]
  show "\<exists>w' t' e. redeliver name opts u 0 (as @ rest) w = (Some (max_retries opts, Failure e), w')
         \<and> snd (last as) = Inl e \<and> db w' u = Some t' \<and> status t' = FAILED
         \<and> error_message t' = Some (str_exc e)
         \<and> retry_delays (trace w') =
             retry_delays (trace w) @ replicate (max_retries opts) (default_retry_delay opts)
         \<and> length (task_execution_duration w') =
             length (task_execution_duration w) + Suc (max_retries opts)"
    using h by simp
next
  fix city :: string and units :: pyval and forecast :: "pydict http_reply"
  assume "city \<noteq> [] \<and> valid_units units"
  then show "WeatherTask_execute (Response 200 []) forecast (PStr city) units
          = Inl (PyExc ValueError (''City '' @ quoted city @ '' not found''))"
    by (simp add: city_not_found)
qed (simp_all add: sum_opts_def chatgpt_opts_def weather_opts_def)

theorem failure_classification_witness:
  "not_found_body = Inl (PyExc ValueError ''City 'London' not found'')
   \<and> fst (redeliver ''weather'' weather_opts example_uuid 0
            [(example_clock, not_found_body), (example_clock, success_body)] pending_world)
       = Some (0, Failure (PyExc ValueError ''City 'London' not found''))
   \<and> fst (redeliver ''weather'' weather_opts example_uuid 0 four_timeouts pending_world)
       = Some (3, Failure timeout_exc)"
proof -
  note fc = failure_classification [of pending_world example_uuid pending_task "''weather''"
      weather_opts]
  have db: "db pending_world example_uuid = Some pending_task"
    by (simp add: db_pending_world pending_task_def)
  have vu: "valid_units (PStr ''metric'')" by (simp add: valid_units_def)
  have nf: "not_found_body = Inl (PyExc ValueError ''City 'London' not found'')"
    using fc [THEN conjunct2, THEN conjunct2, THEN conjunct1, rule_format,
        of "''London''" "PStr ''metric''" TimedOut] vu
    by (simp add: not_found_body_def quoted_def)
  have ve: "is_ValueError (PyExc ValueError ''City 'London' not found'')"
    by (simp add: is_ValueError_def)
  have one: "fst (redeliver ''weather'' weather_opts example_uuid 0
            [(example_clock, not_found_body), (example_clock, success_body)] pending_world)
       = Some (0, Failure (PyExc ValueError ''City 'London' not found''))"
    using fc [THEN conjunct1, rule_format,
        of "PyExc ValueError ''City 'London' not found''" 0 example_clock
           "[(example_clock, success_body)]"] ve db
    by (auto simp: nf)
  have tr: "\<forall>a\<in>set four_timeouts. \<exists>e. snd a = Inl e \<and> \<not> is_ValueError e"
    by (simp add: four_timeouts_def timeout_body_eq not_ve)
  have len: "length four_timeouts = Suc (max_retries weather_opts)"
    by (simp add: four_timeouts_def weather_opts_def)
  have la: "snd (last four_timeouts) = Inl timeout_exc"
    by (simp add: four_timeouts_def timeout_body_eq)
  have four: "fst (redeliver ''weather'' weather_opts example_uuid 0 four_timeouts pending_world)
       = Some (3, Failure timeout_exc)"
    using fc [THEN conjunct2, THEN conjunct1, rule_format, of four_timeouts "[]"] tr len db la
    by (auto simp: weather_opts_def)
  show ?thesis using nf one four by simp
qed


section \<open>Properties of the output reader\<close>

lemma get_task_output_hit:
  assumes "redis w = Some r" "get_error r = None" "entries r (output_key u) = Some (CachedView v, ttl)"
  shows "get_task_output st u w =
     (Inr v, w\<lparr>cache_hits_counter := cache_hits_counter w + 1,
               trace := trace w @ [RedisGet (output_key u)]\<rparr>)"
  using assms
  by (simp add: get_task_output_def cache_get_task_output_def cache_get_def output_key_def)

lemma redis_cache_get [simp]: "redis (snd (cache_get key w)) = redis w"
  by (simp add: cache_get_def split: option.splits)

lemma db_cache_get [simp]: "db (snd (cache_get key w)) = db w"
  by (simp add: cache_get_def split: option.splits)

lemma get_task_output_miss:
  assumes "fst (cache_get_task_output u w) = Inr None"
  shows "get_task_output st u w = read_store st u (snd (cache_get_task_output u w))"
  using assms by (cases "cache_get_task_output u w") (simp add: get_task_output_def)

lemma read_store_absent:
  "db w u = None \<Longrightarrow>
   read_store st u w = (Inl (HTTPException 404 (''Task with UUID '' @ u @ '' not found'')),
                        w\<lparr>trace := trace w @ [DbGet u]\<rparr>)"
  by (simp add: read_store_def)

lemma read_store_nonterminal:
  "db w u = Some t \<Longrightarrow> status t = PENDING \<or> status t = RUNNING \<Longrightarrow>
   read_store st u w = (Inr (response_of_task t), w\<lparr>trace := trace w @ [DbGet u]\<rparr>)"
  by (auto simp: read_store_def)

lemma read_store_terminal:
  assumes "db w u = Some t" "status t = COMPLETED \<or> status t = FAILED" "redis w = Some r"
    "setex_error r = None" "0 < cache_ttl_seconds st"
  shows "read_store st u w =
     (Inr (response_of_task t),
      w\<lparr>trace := trace w @ [DbGet u, RedisSetex (output_key u) (cache_ttl_seconds st)],
        redis := Some (r\<lparr>entries := (entries r)(output_key u \<mapsto>
                   (CachedView (response_of_task t), cache_ttl_seconds st))\<rparr>)\<rparr>)"
  using assms
  by (auto simp: read_store_def cache_set_task_output_def cache_set_def output_key_def Let_def)

lemma read_store_write_fails:
  assumes "db w u = Some t" "status t = COMPLETED \<or> status t = FAILED" "redis w = Some r"
    "setex_error r = Some m"
  shows "fst (read_store st u w) = Inl (Unhandled (PyExc RedisError m))"
  using assms
  by (auto simp: read_store_def cache_set_task_output_def cache_set_def Let_def)

lemma read_store_no_backend:
  assumes "db w u = Some t" "redis w = None"
  shows "read_store st u w = (Inr (response_of_task t), w\<lparr>trace := trace w @ [DbGet u]\<rparr>)"
  using assms
  by (auto simp: read_store_def cache_set_task_output_def cache_set_def Let_def)

lemma redis_read_store_nonterminal:
  "db w u = Some t \<Longrightarrow> status t = PENDING \<or> status t = RUNNING \<Longrightarrow>
   redis (snd (read_store st u w)) = redis w"
  by (simp add: read_store_nonterminal)

lemma redis_get_task_output_nonterminal:
  assumes "db w u = Some t" "status t = PENDING \<or> status t = RUNNING"
  shows "redis (snd (get_task_output st u w)) = redis w"
proof -
  obtain x w0 where c: "cache_get_task_output u w = (x, w0)" by (cases "cache_get_task_output u w")
  have w0: "redis w0 = redis w" "db w0 = db w"
    using c redis_cache_get [of "''task_output:'' @ u" w] db_cache_get [of "''task_output:'' @ u" w]
    by (simp_all add: cache_get_task_output_def)
  have rs: "redis (snd (read_store st u w0)) = redis w"
    using redis_read_store_nonterminal [of w0 u t st] assms w0 by simp
  show ?thesis
    using c w0 rs
    by (simp add: get_task_output_def split: sum.splits option.splits cached.splits)
qed

lemma completed_world_facts:
  "db (completed_world r) example_uuid = Some completed_task"
  "redis (completed_world r) = r"
  "status completed_task = COMPLETED"
  "trace (completed_world r) = []"
  by (simp_all add: completed_world_def completed_task_def empty_world_def)

lemma miss_healthy:
  "fst (cache_get_task_output u (completed_world (Some healthy_redis))) = Inr None"
  "fst (cache_get_task_output u (completed_world (Some full_redis))) = Inr None"
  "fst (cache_get_task_output u (completed_world None)) = Inr None"
  by (simp_all add: cache_get_task_output_def cache_get_def completed_world_facts
      healthy_redis_def full_redis_def)

lemma healthy_redis_facts:
  "entries healthy_redis = Map.empty" "get_error healthy_redis = None"
  "setex_error healthy_redis = None" "cache_ttl_seconds default_settings = 3600"
  by (simp_all add: healthy_redis_def default_settings_def)

lemma full_redis_facts:
  "setex_error full_redis = Some ''OOM command not allowed when used memory > maxmemory''"
  by (simp add: full_redis_def)


text \<open>
  Claim C5. \<open>get_task_output\<close> is cache-aside. On a hit it returns the cached view; the
  only step it adds to the trace is the Redis read, so the Task Store is not read. On a miss
  it reads the store and answers 404 when the record is absent. When the record is
  \<open>completed\<close> or \<open>failed\<close> (and the cache is connected and accepts the write) the view is
  returned and is in the cache afterwards, with the expiry \<open>cache_ttl_seconds\<close>. When the
  record is \<open>pending\<close> or \<open>running\<close> the cache is left as it was, whatever it holds.
\<close>

theorem cache_aside:
  "(\<forall>r v ttl. redis w = Some r \<and> get_error r = None
        \<and> entries r (output_key u) = Some (CachedView v, ttl) \<longrightarrow>
      get_task_output st u w =
        (Inr v, w\<lparr>cache_hits_counter := cache_hits_counter w + 1,
                  trace := trace w @ [RedisGet (output_key u)]\<rparr>))
   \<and> (fst (cache_get_task_output u w) = Inr None \<and> db w u = None \<longrightarrow>
        get_task_output st u w =
          (Inl (HTTPException 404 (''Task with UUID '' @ u @ '' not found'')),
           (snd (cache_get_task_output u w))
             \<lparr>trace := trace (snd (cache_get_task_output u w)) @ [DbGet u]\<rparr>))
   \<and> (\<forall>t r. fst (cache_get_task_output u w) = Inr None \<and> db w u = Some t
        \<and> (status t = COMPLETED \<or> status t = FAILED)
        \<and> redis w = Some r \<and> setex_error r = None \<and> 0 < cache_ttl_seconds st \<longrightarrow>
        fst (get_task_output st u w) = Inr (response_of_task t)
        \<and> redis (snd (get_task_output st u w)) =
            Some (r\<lparr>entries := (entries r)(output_key u \<mapsto>
                    (CachedView (response_of_task t), cache_ttl_seconds st))\<rparr>))
   \<and> (\<forall>t. db w u = Some t \<and> (status t = PENDING \<or> status t = RUNNING) \<longrightarrow>
        redis (snd (get_task_output st u w)) = redis w
        \<and> (fst (cache_get_task_output u w) = Inr None \<longrightarrow>
             fst (get_task_output st u w) = Inr (response_of_task t)))"
proof (intro conjI allI impI)
  fix r v ttl
  assume "redis w = Some r \<and> get_error r = None
        \<and> entries r (output_key u) = Some (CachedView v, ttl)"
  then show "get_task_output st u w =
        (Inr v, w\<lparr>cache_hits_counter := cache_hits_counter w + 1,
                  trace := trace w @ [RedisGet (output_key u)]\<rparr>)"
    using get_task_output_hit by blast
next
  assume h: "fst (cache_get_task_output u w) = Inr None \<and> db w u = None"
  then have "db (snd (cache_get_task_output u w)) u = None"
    by (simp add: cache_get_task_output_def)
  then show "get_task_output st u w =
          (Inl (HTTPException 404 (''Task with UUID '' @ u @ '' not found'')),
           (snd (cache_get_task_output u w))
             \<lparr>trace := trace (snd (cache_get_task_output u w)) @ [DbGet u]\<rparr>)"
    using h by (simp add: get_task_output_miss read_store_absent)
next
  fix t r
  assume h: "fst (cache_get_task_output u w) = Inr None \<and> db w u = Some t
        \<and> (status t = COMPLETED \<or> status t = FAILED)
        \<and> redis w = Some r \<and> setex_error r = None \<and> 0 < cache_ttl_seconds st"
  let ?w0 = "snd (cache_get_task_output u w)"
  have w0: "db ?w0 u = Some t" "redis ?w0 = Some r"
    using h by (simp_all add: cache_get_task_output_def)
  have g: "get_task_output st u w = read_store st u ?w0"
    using h by (simp add: get_task_output_miss)
  note rs = read_store_terminal [OF w0(1) _ w0(2), of st]
  show "fst (get_task_output st u w) = Inr (response_of_task t)"
    using g rs h by simp
  show "redis (snd (get_task_output st u w)) =
            Some (r\<lparr>entries := (entries r)(output_key u \<mapsto>
                    (CachedView (response_of_task t), cache_ttl_seconds st))\<rparr>)"
    using g rs h by simp
next
  fix t
  assume h: "db w u = Some t \<and> (status t = PENDING \<or> status t = RUNNING)"
  then show "redis (snd (get_task_output st u w)) = redis w"
    using redis_get_task_output_nonterminal by blast
  assume m: "fst (cache_get_task_output u w) = Inr None"
  have "db (snd (cache_get_task_output u w)) u = Some t"
    using h by (simp add: cache_get_task_output_def)
  then show "fst (get_task_output st u w) = Inr (response_of_task t)"
    using h m by (simp add: get_task_output_miss read_store_nonterminal)
qed

theorem cache_aside_witness:
  "fst (get_task_output default_settings example_uuid cached_only_world)
     = Inr (response_of_task completed_task)
   \<and> trace (snd (get_task_output default_settings example_uuid cached_only_world))
       = [RedisGet (output_key example_uuid)]
   \<and> db cached_only_world example_uuid = None
   \<and> fst (get_task_output default_settings example_uuid (completed_world (Some healthy_redis)))
       = Inr (response_of_task completed_task)
   \<and> redis (snd (get_task_output default_settings example_uuid
                    (completed_world (Some healthy_redis))))
       = Some (healthy_redis\<lparr>entries := [output_key example_uuid \<mapsto>
                  (CachedView (response_of_task completed_task), 3600)]\<rparr>)
   \<and> fst (get_task_output default_settings example_uuid pending_world)
       = Inr (response_of_task pending_task)
   \<and> redis (snd (get_task_output default_settings example_uuid pending_world)) = None"
proof -
  note hit = cache_aside [of cached_only_world example_uuid default_settings,
      THEN conjunct1, rule_format,
      of "healthy_redis\<lparr>entries :=
        [output_key example_uuid \<mapsto> (CachedView (response_of_task completed_task), 3600)]\<rparr>"
         "response_of_task completed_task" 3600]
  have 1: "get_task_output default_settings example_uuid cached_only_world =
      (Inr (response_of_task completed_task),
       cached_only_world\<lparr>cache_hits_counter := cache_hits_counter cached_only_world + 1,
          trace := trace cached_only_world @ [RedisGet (output_key example_uuid)]\<rparr>)"
    using hit by (simp add: cached_only_world_def healthy_redis_def empty_world_def)
  have 2: "trace cached_only_world = []" "db cached_only_world example_uuid = None"
    by (simp_all add: cached_only_world_def empty_world_def)
  note terminal = cache_aside [of "completed_world (Some healthy_redis)" example_uuid default_settings,
      THEN conjunct2, THEN conjunct2, THEN conjunct1, rule_format,
      of completed_task healthy_redis]
  have 3: "fst (get_task_output default_settings example_uuid (completed_world (Some healthy_redis)))
       = Inr (response_of_task completed_task)
     \<and> redis (snd (get_task_output default_settings example_uuid
                    (completed_world (Some healthy_redis))))
       = Some (healthy_redis\<lparr>entries := (entries healthy_redis)(output_key example_uuid \<mapsto>
                  (CachedView (response_of_task completed_task), 3600))\<rparr>)"
    using terminal by (simp add: miss_healthy completed_world_facts healthy_redis_facts)
  have pw: "redis pending_world = None"
    by (simp add: pending_world_eq empty_world_def)
  have pm: "fst (cache_get_task_output example_uuid pending_world) = Inr None"
    by (simp add: cache_get_task_output_def cache_get_def pw)
  note nonterm = cache_aside [of pending_world example_uuid default_settings,
      THEN conjunct2, THEN conjunct2, THEN conjunct2, rule_format, of pending_task]
  have 4: "redis (snd (get_task_output default_settings example_uuid pending_world)) = None
     \<and> fst (get_task_output default_settings example_uuid pending_world)
       = Inr (response_of_task pending_task)"
    using nonterm pm pw by (simp add: db_pending_world pending_task_def)
  show ?thesis using 1 2 3 4 by (simp add: healthy_redis_facts)
qed


text \<open>Against claim C6 as stated: a completed record, a cache without the key, and a Redis
  server that refuses the write. The read fails with the error of the write.\<close>

theorem cache_write_failure_counterexample:
  "status completed_task = COMPLETED
   \<and> fst (get_task_output default_settings example_uuid (completed_world (Some full_redis)))
       = Inl (Unhandled
               (PyExc RedisError ''OOM command not allowed when used memory > maxmemory''))"
proof -
  let ?w = "completed_world (Some full_redis)"
  let ?v = "snd (cache_get_task_output example_uuid ?w)"
  have g: "get_task_output default_settings example_uuid ?w
      = read_store default_settings example_uuid ?v"
    by (simp add: get_task_output_miss miss_healthy)
  have "db ?v example_uuid = Some completed_task" "redis ?v = Some full_redis"
    by (simp_all add: cache_get_task_output_def completed_world_facts)
  from read_store_write_fails [OF this(1) _ this(2), of _ default_settings]
  show ?thesis by (simp add: g completed_world_facts full_redis_facts)
qed


text \<open>
  Claim C6, amended. The read does not depend on the cache only when no cache is connected
  (\<open>CacheService._redis is None\<close>): \<open>set\<close> then returns \<open>False\<close> and the view is returned.
  With a connected cache, an error raised by the write of a terminal view is not caught: it
  leaves the route and the view is not returned.
\<close>

theorem cache_write_failure_propagates:
  "(\<forall>t. redis w = None \<and> db w u = Some t \<longrightarrow>
      get_task_output st u w = (Inr (response_of_task t), w\<lparr>trace := trace w @ [DbGet u]\<rparr>))
   \<and> (\<forall>t r m. fst (cache_get_task_output u w) = Inr None \<and> db w u = Some t
        \<and> (status t = COMPLETED \<or> status t = FAILED)
        \<and> redis w = Some r \<and> setex_error r = Some m \<longrightarrow>
        fst (get_task_output st u w) = Inl (Unhandled (PyExc RedisError m)))"
proof (intro conjI allI impI)
  fix t
  assume h: "redis w = None \<and> db w u = Some t"
  then have c: "cache_get_task_output u w = (Inr None, w)"
    by (simp add: cache_get_task_output_def cache_get_def)
  show "get_task_output st u w = (Inr (response_of_task t), w\<lparr>trace := trace w @ [DbGet u]\<rparr>)"
    using h c read_store_no_backend [of w u t st] by (simp add: get_task_output_def)
next
  fix t r m
  assume h: "fst (cache_get_task_output u w) = Inr None \<and> db w u = Some t
        \<and> (status t = COMPLETED \<or> status t = FAILED)
        \<and> redis w = Some r \<and> setex_error r = Some m"
  let ?v = "snd (cache_get_task_output u w)"
  have w0: "db ?v u = Some t" "redis ?v = Some r"
    using h by (simp_all add: cache_get_task_output_def)
  have g: "get_task_output st u w = read_store st u ?v"
    using h by (simp add: get_task_output_miss)
  show "fst (get_task_output st u w) = Inl (Unhandled (PyExc RedisError m))"
    using read_store_write_fails [OF w0(1) _ w0(2), of m st] h g by simp
qed

theorem cache_write_failure_propagates_witness:
  "get_task_output default_settings example_uuid (completed_world None)
     = (Inr (response_of_task completed_task),
        (completed_world None)\<lparr>trace := [DbGet example_uuid]\<rparr>)
   \<and> fst (get_task_output default_settings example_uuid (completed_world (Some full_redis)))
       = Inl (Unhandled
               (PyExc RedisError ''OOM command not allowed when used memory > maxmemory''))"
proof -
  have 1: "get_task_output default_settings example_uuid (completed_world None)
     = (Inr (response_of_task completed_task),
        (completed_world None)\<lparr>trace := trace (completed_world None) @ [DbGet example_uuid]\<rparr>)"
    using cache_write_failure_propagates [of "completed_world None" example_uuid default_settings,
        THEN conjunct1, rule_format, of completed_task]
    by (simp add: completed_world_facts)
  have 2: "fst (get_task_output default_settings example_uuid (completed_world (Some full_redis)))
       = Inl (Unhandled
               (PyExc RedisError ''OOM command not allowed when used memory > maxmemory''))"
    using cache_write_failure_propagates [of "completed_world (Some full_redis)" example_uuid
        default_settings, THEN conjunct2, rule_format,
        of completed_task full_redis "''OOM command not allowed when used memory > maxmemory''"]
    by (simp add: completed_world_facts miss_healthy full_redis_facts)
  show ?thesis using 1 2 by (simp add: completed_world_facts)
qed


section \<open>Two edge cases of validation\<close>

lemma run_task_accepts:
  assumes "validate_task_parameters fp st name ps = Inr ()" "new_id \<notin> dom (db w)"
    "check_arguments name ps = Inr ()"
  shows "\<exists>w'. run_task fp st new_id now (RunTaskRequest name ps) w
             = (Inr (RunTaskResponse new_id ''Task submitted successfully''), w')
           \<and> db w' new_id =
               Some \<lparr>task_id = new_id, task_name = task_name_value name, task_parameters = ps,
                     status = PENDING, result = None, error_message = None, created_at = now,
                     updated_at = None, completed_at = None\<rparr>
           \<and> queue w' = queue w @ [WorkItem name new_id ps]
           \<and> trace w' = trace w @ [DbInsert new_id, Published name new_id]"
  using assms by (simp add: run_task_def Let_def)

lemma execute_bools: "SumTask_execute fp (PBool True) (PBool True) = Inr bool_result"
  by (simp add: SumTask_execute_def py_add_def bool_result_def)

lemma check_arguments_bools: "check_arguments TaskName_SUM bool_params = Inr ()"
  by (simp add: check_arguments_def bool_params_def)

lemma validate_bools:
  "validate_task_parameters fp default_settings TaskName_SUM bool_params = Inr ()"
  by (simp add: validate_sum_def bool_params_def default_settings_def)


text \<open>
  Claim C9. The validator of the sum task accepts booleans: \<open>a = true\<close>, \<open>b = true\<close> passes
  validation, the submission creates a pending record and a work item, and the execution of
  that work item completes the record with a result whose \<open>result\<close> is the integer 2.
\<close>

theorem booleans_accepted:
  "validate_task_parameters fp default_settings TaskName_SUM bool_params = Inr ()
   \<and> SumTask_execute fp (PBool True) (PBool True) = Inr bool_result
   \<and> map_of bool_result ''result'' = Some (PInt 2)
   \<and> (new_id \<notin> dom (db w) \<longrightarrow>
        (\<exists>w' w'' t'.
           run_task fp default_settings new_id now (RunTaskRequest TaskName_SUM bool_params) w
             = (Inr (RunTaskResponse new_id ''Task submitted successfully''), w')
           \<and> map_option status (db w' new_id) = Some PENDING
           \<and> queue w' = queue w @ [WorkItem TaskName_SUM new_id bool_params]
           \<and> sum_numbers fp 0 c new_id (PBool True) (PBool True) w' = (Success bool_result, w'')
           \<and> db w'' new_id = Some t' \<and> status t' = COMPLETED \<and> result t' = Some bool_result
           \<and> error_message t' = None))"
proof (intro conjI impI)
  show "validate_task_parameters fp default_settings TaskName_SUM bool_params = Inr ()"
    by (rule validate_bools)
  show "SumTask_execute fp (PBool True) (PBool True) = Inr bool_result"
    by (rule execute_bools)
  show "map_of bool_result ''result'' = Some (PInt 2)"
    by (simp add: bool_result_def)
next
  assume fresh: "new_id \<notin> dom (db w)"
  obtain w' where 1:
    "run_task fp default_settings new_id now (RunTaskRequest TaskName_SUM bool_params) w
       = (Inr (RunTaskResponse new_id ''Task submitted successfully''), w')"
    "db w' new_id =
       Some \<lparr>task_id = new_id, task_name = task_name_value TaskName_SUM,
             task_parameters = bool_params, status = PENDING, result = None,
             error_message = None, created_at = now, updated_at = None, completed_at = None\<rparr>"
    "queue w' = queue w @ [WorkItem TaskName_SUM new_id bool_params]"
    using run_task_accepts [OF validate_bools fresh check_arguments_bools] by blast
  obtain w'' t' where 2:
    "attempt ''sum'' sum_opts new_id 0 (c, Inr bool_result) w' = (Success bool_result, w'')"
    "db w'' new_id = Some t'" "status t' = COMPLETED" "result t' = Some bool_result"
    "error_message t' = None"
    using attempt_success [OF 1(2), of "''sum''" sum_opts 0 c bool_result] by auto
  have "sum_numbers fp 0 c new_id (PBool True) (PBool True) w' = (Success bool_result, w'')"
    using 2(1) by (simp add: sum_numbers_def execute_bools)
  then show "\<exists>w' w'' t'.
           run_task fp default_settings new_id now (RunTaskRequest TaskName_SUM bool_params) w
             = (Inr (RunTaskResponse new_id ''Task submitted successfully''), w')
           \<and> map_option status (db w' new_id) = Some PENDING
           \<and> queue w' = queue w @ [WorkItem TaskName_SUM new_id bool_params]
           \<and> sum_numbers fp 0 c new_id (PBool True) (PBool True) w' = (Success bool_result, w'')
           \<and> db w'' new_id = Some t' \<and> status t' = COMPLETED \<and> result t' = Some bool_result
           \<and> error_message t' = None"
    using 1 2 by auto
qed

theorem booleans_accepted_witness:
  "example_uuid \<notin> dom (db empty_world)
   \<and> fst (run_task example_fpu default_settings example_uuid 0
            (RunTaskRequest TaskName_SUM bool_params) empty_world)
       = Inr (RunTaskResponse example_uuid ''Task submitted successfully'')
   \<and> fst (sum_numbers example_fpu 0 example_clock example_uuid (PBool True) (PBool True)
            (snd (run_task example_fpu default_settings example_uuid 0
                    (RunTaskRequest TaskName_SUM bool_params) empty_world)))
       = Success bool_result
   \<and> map_option result
        (db (snd (sum_numbers example_fpu 0 example_clock example_uuid (PBool True) (PBool True)
            (snd (run_task example_fpu default_settings example_uuid 0
                    (RunTaskRequest TaskName_SUM bool_params) empty_world)))) example_uuid)
       = Some (Some bool_result)"
proof -
  have fresh: "example_uuid \<notin> dom (db empty_world)" by (simp add: empty_world_def)
  from booleans_accepted [of example_fpu example_uuid empty_world 0 example_clock,
      THEN conjunct2, THEN conjunct2, THEN conjunct2, rule_format, OF fresh]
  obtain w' w'' t' where
    "run_task example_fpu default_settings example_uuid 0
        (RunTaskRequest TaskName_SUM bool_params) empty_world
       = (Inr (RunTaskResponse example_uuid ''Task submitted successfully''), w')"
    "sum_numbers example_fpu 0 example_clock example_uuid (PBool True) (PBool True) w'
       = (Success bool_result, w'')"
    "db w'' example_uuid = Some t'" "result t' = Some bool_result"
    by blast
  then show ?thesis using fresh by simp
qed


lemma space: "py_isspace CHR '' ''" "\<not> py_isspace CHR ''x''"
  by (simp_all add: py_isspace_def)

lemma strip_padded:
  assumes "\<not> py_isspace c" "py_isspace d" "0 < n"
  shows "strip (replicate n c @ [d]) = replicate n c"
proof -
  have ne: "replicate n c \<noteq> []" using assms(3) by simp
  have h: "hd (replicate n c) = c" using assms(3) by (cases n) simp_all
  have 1: "dropWhile py_isspace (replicate n c @ [d]) = replicate n c @ [d]"
    using assms(1) ne h by (simp add: dropWhile_eq_self_iff hd_append)
  have 2: "dropWhile py_isspace (replicate n c) = replicate n c"
    using assms(1) ne h by (simp add: dropWhile_eq_self_iff)
  show ?thesis using assms(1,2) ne by (simp add: strip_def 1 2)
qed

lemma long_prompt_facts:
  "length long_prompt = 10001" "long_prompt \<noteq> []"
  "length (strip long_prompt) = 10000" "strip long_prompt \<noteq> []"
proof -
  have s: "strip long_prompt = replicate 10000 CHR ''x''"
    unfolding long_prompt_def by (rule strip_padded) (simp_all add: space)
  have l: "length (replicate 10000 CHR ''x'' @ '' '') = Suc 10000"
    by (simp only: length_append length_replicate list.size)
  show "length long_prompt = 10001" unfolding long_prompt_def l by simp
  show "long_prompt \<noteq> []" unfolding long_prompt_def by (simp only: append_is_Nil_conv list.distinct simp_thms)
  show "length (strip long_prompt) = 10000" unfolding s by (simp only: length_replicate)
  show "strip long_prompt \<noteq> []" unfolding s by (simp only: replicate_empty)
qed

lemma str_int_10000: "str_int 10000 = ''10000''"
  by (simp add: str_int_def str_nat.simps)

lemma validate_long_prompt:
  "validate_task_parameters fp default_settings TaskName_CHATGPT [(''prompt'', PStr long_prompt)]
     = Inr ()"
  by (simp add: validate_chatgpt_def long_prompt_facts default_settings_def
      validate_max_tokens_def validate_temperature_def)

lemma check_arguments_long_prompt:
  "check_arguments TaskName_CHATGPT [(''prompt'', PStr long_prompt)] = Inr ()"
  by (simp add: check_arguments_def)

lemma execute_long_prompt:
  "ChatGPTTask_execute default_settings api (PStr long_prompt) model max_tokens temperature
     = Inl too_long"
  by (simp add: ChatGPTTask_execute_def default_settings_def str_int_10000 too_long_def
      long_prompt_facts)


text \<open>
  Claim C10. The prompt of 10000 letters followed by one space has a stripped length of
  10000, within \<open>max_prompt_length\<close>, and a raw length of 10001. The validator, which
  measures the stripped prompt, accepts it, so the submission creates a pending record; the
  body, which measures the raw prompt, raises a \<open>ValueError\<close> with the message
  \<open>Prompt exceeds maximum length of 10000 characters\<close>, and the Celery task ends with the
  record \<open>failed\<close> and no retry published.
\<close>

theorem prompt_length_mismatch:
  "int (length (strip long_prompt)) \<le> max_prompt_length default_settings
   \<and> max_prompt_length default_settings < int (length long_prompt)
   \<and> validate_task_parameters fp default_settings TaskName_CHATGPT
         [(''prompt'', PStr long_prompt)] = Inr ()
   \<and> ChatGPTTask_execute default_settings api (PStr long_prompt) model max_tokens temperature
       = Inl too_long
   \<and> is_ValueError too_long
   \<and> str_exc too_long = ''Prompt exceeds maximum length of 10000 characters''
   \<and> (new_id \<notin> dom (db w) \<longrightarrow>
        (\<exists>w' w'' t'.
           run_task fp default_settings new_id now
               (RunTaskRequest TaskName_CHATGPT [(''prompt'', PStr long_prompt)]) w
             = (Inr (RunTaskResponse new_id ''Task submitted successfully''), w')
           \<and> map_option status (db w' new_id) = Some PENDING
           \<and> query_chatgpt default_settings 0 (c, api) new_id (PStr long_prompt) model max_tokens
                 temperature w'
               = (Failure too_long, w'')
           \<and> db w'' new_id = Some t' \<and> status t' = FAILED
           \<and> error_message t' = Some ''Prompt exceeds maximum length of 10000 characters''
           \<and> retry_delays (trace w'') = retry_delays (trace w)))"
proof (intro conjI impI)
  show "int (length (strip long_prompt)) \<le> max_prompt_length default_settings"
    by (simp add: long_prompt_facts default_settings_def)
  show "max_prompt_length default_settings < int (length long_prompt)"
    by (simp add: long_prompt_facts default_settings_def)
  show "validate_task_parameters fp default_settings TaskName_CHATGPT
         [(''prompt'', PStr long_prompt)] = Inr ()"
    by (rule validate_long_prompt)
  show "ChatGPTTask_execute default_settings api (PStr long_prompt) model max_tokens temperature
       = Inl too_long"
    by (rule execute_long_prompt)
  show ve: "is_ValueError too_long" by (simp add: too_long_def is_ValueError_def)
  show m: "str_exc too_long = ''Prompt exceeds maximum length of 10000 characters''"
    by (simp add: too_long_def)
  assume fresh: "new_id \<notin> dom (db w)"
  obtain w' where 1:
    "run_task fp default_settings new_id now
        (RunTaskRequest TaskName_CHATGPT [(''prompt'', PStr long_prompt)]) w
       = (Inr (RunTaskResponse new_id ''Task submitted successfully''), w')"
    "db w' new_id =
       Some \<lparr>task_id = new_id, task_name = task_name_value TaskName_CHATGPT,
             task_parameters = [(''prompt'', PStr long_prompt)], status = PENDING, result = None,
             error_message = None, created_at = now, updated_at = None, completed_at = None\<rparr>"
    "trace w' = trace w @ [DbInsert new_id, Published TaskName_CHATGPT new_id]"
    using run_task_accepts [OF validate_long_prompt fresh check_arguments_long_prompt] by blast
  obtain w'' t' where 2:
    "attempt ''chatgpt'' chatgpt_opts new_id 0 (c, Inl too_long) w' = (Failure too_long, w'')"
    "db w'' new_id = Some t'" "status t' = FAILED" "error_message t' = Some (str_exc too_long)"
    "trace w'' = trace w' @ [DbGet new_id, DbCommit new_id RUNNING, DbGet new_id,
                             DbCommit new_id FAILED]"
    using attempt_final_failure [OF 1(2), of too_long chatgpt_opts 0 "''chatgpt''" c] ve by auto
  have q: "query_chatgpt default_settings 0 (c, api) new_id (PStr long_prompt) model max_tokens
             temperature w' = (Failure too_long, w'')"
    using 2(1) by (simp add: query_chatgpt_def execute_long_prompt)
  have r: "retry_delays (trace w'') = retry_delays (trace w)"
    using 2(5) 1(3) by (simp add: retry_delays_append)
  show "\<exists>w' w'' t'.
           run_task fp default_settings new_id now
               (RunTaskRequest TaskName_CHATGPT [(''prompt'', PStr long_prompt)]) w
             = (Inr (RunTaskResponse new_id ''Task submitted successfully''), w')
           \<and> map_option status (db w' new_id) = Some PENDING
           \<and> query_chatgpt default_settings 0 (c, api) new_id (PStr long_prompt) model max_tokens
                 temperature w'
               = (Failure too_long, w'')
           \<and> db w'' new_id = Some t' \<and> status t' = FAILED
           \<and> error_message t' = Some ''Prompt exceeds maximum length of 10000 characters''
           \<and> retry_delays (trace w'') = retry_delays (trace w)"
    using 1 2 q r m by auto
qed

theorem prompt_length_mismatch_witness:
  "example_uuid \<notin> dom (db empty_world)
   \<and> fst (run_task example_fpu default_settings example_uuid 0
            (RunTaskRequest TaskName_CHATGPT [(''prompt'', PStr long_prompt)]) empty_world)
       = Inr (RunTaskResponse example_uuid ''Task submitted successfully'')
   \<and> fst (query_chatgpt default_settings 0 (example_clock, Completion (PStr ''ok'') None)
            example_uuid (PStr long_prompt) (PStr ''gpt-3.5-turbo'') (PInt 1000)
            (PFloat (Finite (7 / 10)))
            (snd (run_task example_fpu default_settings example_uuid 0
                    (RunTaskRequest TaskName_CHATGPT [(''prompt'', PStr long_prompt)])
                    empty_world)))
       = Failure too_long"
proof -
  have fresh: "example_uuid \<notin> dom (db empty_world)" by (simp add: empty_world_def)
  from prompt_length_mismatch [of example_fpu _ _ _ _ example_uuid empty_world 0 example_clock,
      THEN conjunct2, THEN conjunct2, THEN conjunct2, THEN conjunct2, THEN conjunct2,
      THEN conjunct2, rule_format, OF fresh,
      of "Completion (PStr ''ok'') None" "PStr ''gpt-3.5-turbo''" "PInt 1000"
         "PFloat (Finite (7 / 10))"]
  obtain w' w'' where
    "run_task example_fpu default_settings example_uuid 0
        (RunTaskRequest TaskName_CHATGPT [(''prompt'', PStr long_prompt)]) empty_world
       = (Inr (RunTaskResponse example_uuid ''Task submitted successfully''), w')"
    "query_chatgpt default_settings 0 (example_clock, Completion (PStr ''ok'') None)
            example_uuid (PStr long_prompt) (PStr ''gpt-3.5-turbo'') (PInt 1000)
            (PFloat (Finite (7 / 10))) w' = (Failure too_long, w'')"
    by blast
  then show ?thesis using fresh by simp
qed


end
